theory Spec2Isabelle
  imports Main "HOL-Library.AList"
begin

section \<open>Go library functions used by sources/mysql/mysqldump.go\<close>

text \<open>
  Strings are byte strings (\<open>char list\<close>), as Go's \<open>string\<close> and \<open>[]byte\<close> are.
  The functions of this section are Go's \<open>strings\<close>, \<open>strconv\<close> and \<open>regexp\<close>
  packages, restricted to the calls the dump processor makes.
\<close>

subsection \<open>Package strings\<close>

definition HasPrefix :: "string \<Rightarrow> string \<Rightarrow> bool" where
  "HasPrefix s p = (take (length p) s = p)"

definition HasSuffix :: "string \<Rightarrow> string \<Rightarrow> bool" where
  "HasSuffix s p = (length p \<le> length s \<and> drop (length s - length p) s = p)"

fun Contains :: "string \<Rightarrow> string \<Rightarrow> bool" where
  "Contains [] sub = (sub = [])"
| "Contains (c # cs) sub = (HasPrefix (c # cs) sub \<or> Contains cs sub)"

text \<open>\<open>strings.Count(s, sub)\<close> for a non-empty \<open>sub\<close>: the non-overlapping occurrences.\<close>

fun Count :: "string \<Rightarrow> string \<Rightarrow> nat" where
  "Count s sub =
     (case s of [] \<Rightarrow> 0
      | c # cs \<Rightarrow>
          if sub \<noteq> [] \<and> HasPrefix s sub \<and> length (drop (length sub) s) < length s
          then Suc (Count (drop (length sub) s) sub)
          else Count cs sub)"

declare Count.simps [simp del]

definition TrimPrefix :: "string \<Rightarrow> string \<Rightarrow> string" where
  "TrimPrefix s p = (if HasPrefix s p then drop (length p) s else s)"

definition TrimSuffix :: "string \<Rightarrow> string \<Rightarrow> string" where
  "TrimSuffix s p = (if HasSuffix s p then take (length s - length p) s else s)"

text \<open>\<open>strings.Split(s, sep)\<close> for a separator of one byte (\<open>"("\<close> and \<open>","\<close> in the source).\<close>

fun Split :: "string \<Rightarrow> char \<Rightarrow> string list" where
  "Split [] sep = [[]]"
| "Split (c # cs) sep =
     (if c = sep then [] # Split cs sep
      else (case Split cs sep of [] \<Rightarrow> [[c]] | x # xs \<Rightarrow> (c # x) # xs))"

fun Join :: "string list \<Rightarrow> string \<Rightarrow> string" where
  "Join [] sep = []"
| "Join [x] sep = x"
| "Join (x # y # ys) sep = x @ sep @ Join (y # ys) sep"

text \<open>
  \<open>strings.ToLower\<close> lowers every letter of the Unicode tables (in a text that is not
  ASCII, U+0130 becomes \<open>i\<close>, for one), so it is taken from outside, with the parser
  (\<open>Ext_ToLower\<close> below). \<open>lower_char\<close> lowers an ASCII letter, and \<open>ToLowerASCII\<close> is
  \<open>strings.ToLower\<close> on a text of ASCII bytes only, which the examples use.
\<close>

definition lower_char :: "char \<Rightarrow> char" where
  "lower_char c =
     (if (65::nat) \<le> of_char c \<and> (of_char c :: nat) \<le> 90 then char_of (of_char c + (32::nat)) else c)"

definition ToLowerASCII :: "string \<Rightarrow> string" where
  "ToLowerASCII s = map lower_char s"

subsection \<open>Package strconv and decimal rendering\<close>

definition is_digit :: "char \<Rightarrow> bool" where
  "is_digit c = ((48::nat) \<le> of_char c \<and> (of_char c :: nat) \<le> 57)"

definition digit_val :: "char \<Rightarrow> int" where
  "digit_val c = int (of_char c) - 48"

definition digits_val :: "string \<Rightarrow> int" where
  "digits_val ds = foldl (\<lambda>acc c. 10 * acc + digit_val c) 0 ds"

text \<open>
  \<open>strconv.ParseInt(s, 10, 64)\<close>: an optional sign, then at least one decimal digit, and
  the value must fit a signed 64-bit integer; \<open>None\<close> is the call's error.
\<close>

definition ParseInt :: "string \<Rightarrow> int option" where
  "ParseInt s =
     (case s of [] \<Rightarrow> None
      | c # cs \<Rightarrow>
          let neg = (c = CHR ''-'');
              ds = (if c = CHR ''+'' \<or> c = CHR ''-'' then cs else s)
          in if ds = [] \<or> \<not> list_all is_digit ds then None
             else let un = digits_val ds
                  in if \<not> neg \<and> un \<ge> 2 ^ 63 then None
                     else if neg \<and> un > 2 ^ 63 then None
                     else Some (if neg then - un else un))"

fun show_nat :: "nat \<Rightarrow> string" where
  "show_nat n = (if n < 10 then [char_of (48 + n)] else show_nat (n div 10) @ [char_of (48 + n mod 10)])"

declare show_nat.simps [simp del]

definition show_int :: "int \<Rightarrow> string" where
  "show_int i = (if i < 0 then CHR ''-'' # show_nat (nat (- i)) else show_nat (nat i))"

subsection \<open>Package regexp\<close>

text \<open>
  A regular expression is matched the way Go's \<open>regexp\<close> reports matches: leftmost, and
  among the matches starting there the one a backtracking matcher finds first (a greedy
  star tries more repetitions first, a lazy star fewer, an alternation its left branch
  first). \<open>rmatch r s\<close> lists, in that order of preference, the rests of \<open>s\<close> after each
  way of matching \<open>r\<close> at the start of \<open>s\<close>.

  Go matches runes, the model bytes. In the patterns of mysqldump.go a rune of several
  bytes is matched by \<open>.\<close> and by negated classes only, always before a literal of ASCII
  bytes, which no byte of such a rune equals; so the matches are the same. Under \<open>(?i)\<close> a
  letter matches the runes of its case-folding orbit: its two ASCII cases and, for \<open>k\<close>
  and \<open>s\<close>, the Kelvin sign (U+212A) and the long s (U+017F), here in their UTF-8 bytes.
\<close>

datatype cclass =
    CChar char
  | CCharCI char
  | CSpace
  | CDigit
  | CDot
  | CRange char char
  | CNot "char list"
  | COneOf "cclass list"

fun cclass_match :: "cclass \<Rightarrow> char \<Rightarrow> bool" where
  "cclass_match (CChar x) c = (c = x)"
| "cclass_match (CCharCI x) c = (lower_char c = lower_char x)"
| "cclass_match CSpace c = (c \<in> set [CHR 0x09, CHR 0x0A, CHR 0x0C, CHR 0x0D, CHR '' ''])"
| "cclass_match CDigit c = is_digit c"
| "cclass_match CDot c = (c \<noteq> CHR 0x0A)"
| "cclass_match (CRange lo hi) c = ((of_char lo :: nat) \<le> of_char c \<and> (of_char c :: nat) \<le> of_char hi)"
| "cclass_match (CNot xs) c = (c \<notin> set xs)"
| "cclass_match (COneOf ks) c = list_ex (\<lambda>k. cclass_match k c) ks"

datatype rx = REps | RChar cclass | RSeq rx rx | RAlt rx rx | RStar rx | RStarLazy rx

fun rmatch :: "rx \<Rightarrow> string \<Rightarrow> string list" where
  "rmatch REps s = [s]"
| "rmatch (RChar k) s = (case s of [] \<Rightarrow> [] | c # cs \<Rightarrow> if cclass_match k c then [cs] else [])"
| "rmatch (RSeq a b) s = concat (map (rmatch b) (rmatch a s))"
| "rmatch (RAlt a b) s = rmatch a s @ rmatch b s"
| "rmatch (RStar a) s =
     concat (map (\<lambda>t. if length t < length s then rmatch (RStar a) t else []) (rmatch a s)) @ [s]"
| "rmatch (RStarLazy a) s =
     s # concat (map (\<lambda>t. if length t < length s then rmatch (RStarLazy a) t else []) (rmatch a s))"

fun RLit :: "string \<Rightarrow> rx" where
  "RLit [] = REps"
| "RLit (c # cs) = RSeq (RChar (CChar c)) (RLit cs)"

definition RCharCI :: "char \<Rightarrow> rx" where
  "RCharCI c =
     (if lower_char c = CHR ''k'' then RAlt (RChar (CCharCI c)) (RLit [CHR 0xE2, CHR 0x84, CHR 0xAA])
      else if lower_char c = CHR ''s'' then RAlt (RChar (CCharCI c)) (RLit [CHR 0xC5, CHR 0xBF])
      else RChar (CCharCI c))"

fun RLitCI :: "string \<Rightarrow> rx" where
  "RLitCI [] = REps"
| "RLitCI (c # cs) = RSeq (RCharCI c) (RLitCI cs)"

fun RSeqs :: "rx list \<Rightarrow> rx" where
  "RSeqs [] = REps"
| "RSeqs [r] = r"
| "RSeqs (r # rs) = RSeq r (RSeqs rs)"

definition RPlus :: "rx \<Rightarrow> rx" where
  "RPlus r = RSeq r (RStar r)"

text \<open>
  \<open>rx_find r s\<close> is the leftmost match of \<open>r\<close> in \<open>s\<close>: the text before it, the match and
  the text after it.
\<close>

fun rx_find :: "rx \<Rightarrow> string \<Rightarrow> (string \<times> string \<times> string) option" where
  "rx_find r s =
     (case rmatch r s of
        t # _ \<Rightarrow> Some ([], take (length s - length t) s, t)
      | [] \<Rightarrow>
          (case s of [] \<Rightarrow> None
           | c # cs \<Rightarrow>
               (case rx_find r cs of None \<Rightarrow> None
                | Some (b, m, a) \<Rightarrow> Some (c # b, m, a))))"

declare rx_find.simps [simp del]

text \<open>\<open>re.MatchString(s)\<close>, and \<open>re.Match\<close> for a pattern anchored as \<open>^...$\<close>.\<close>

definition MatchString :: "rx \<Rightarrow> string \<Rightarrow> bool" where
  "MatchString r s = (rx_find r s \<noteq> None)"

definition MatchAnchored :: "rx \<Rightarrow> string \<Rightarrow> bool" where
  "MatchAnchored r s = ([] \<in> set (rmatch r s))"

text \<open>\<open>re.FindString(s)\<close>: the leftmost match, the empty string when there is none.\<close>

definition FindString :: "rx \<Rightarrow> string \<Rightarrow> string" where
  "FindString r s = (case rx_find r s of None \<Rightarrow> [] | Some (b, m, a) \<Rightarrow> m)"

text \<open>
  \<open>re.FindAllString(s, -1)\<close>: the successive non-overlapping matches. The patterns it is
  called with never match the empty string; after an empty match the scan is moved one
  byte on so that the function is total.
\<close>

fun FindAllString :: "rx \<Rightarrow> string \<Rightarrow> string list" where
  "FindAllString r s =
     (case rx_find r s of None \<Rightarrow> []
      | Some (b, m, a) \<Rightarrow>
          if m \<noteq> [] \<and> length a < length s then m # FindAllString r a
          else (case s of [] \<Rightarrow> [m]
                | c # cs \<Rightarrow> if b = [] then m # FindAllString r cs else FindAllString r cs))"

declare FindAllString.simps [simp del]

text \<open>\<open>re.Split(s, 2)\<close>: the text before and after the leftmost match, or \<open>s\<close> alone.\<close>

definition RegexpSplit2 :: "rx \<Rightarrow> string \<Rightarrow> string list" where
  "RegexpSplit2 r s = (case rx_find r s of None \<Rightarrow> [s] | Some (b, m, a) \<Rightarrow> [b, a])"

text \<open>
  \<open>re.ReplaceAllString(s, repl)\<close>, with the replacement given as a function of the match
  (\<open>\<lambda>m. repl\<close> for a literal replacement, the text of a group for \<open>$1\<close>).
\<close>

fun ReplaceAll :: "rx \<Rightarrow> (string \<Rightarrow> string) \<Rightarrow> string \<Rightarrow> string" where
  "ReplaceAll r f s =
     (case rx_find r s of None \<Rightarrow> s
      | Some (b, m, a) \<Rightarrow>
          if m \<noteq> [] \<and> length a < length s then b @ f m @ ReplaceAll r f a
          else s)"

declare ReplaceAll.simps [simp del]

subsection \<open>The patterns of mysqldump.go\<close>

text \<open>\<open>valuesRegexp = "\\((.*?)\\)"\<close>\<close>

definition valuesRegexp :: rx where
  "valuesRegexp = RSeqs [RChar (CChar CHR ''(''), RStarLazy (RChar CDot), RChar (CChar CHR '')'')]"

text \<open>\<open>insertRegexp = "INSERT\\sINTO\\s(.*?)\\sVALUES\\s"\<close>\<close>

definition insertRegexp :: rx where
  "insertRegexp =
     RSeqs [RLit ''INSERT'', RChar CSpace, RLit ''INTO'', RChar CSpace, RStarLazy (RChar CDot),
            RChar CSpace, RLit ''VALUES'', RChar CSpace]"

text \<open>\<open>unsupportedRegexp = "function|procedure|trigger"\<close>\<close>

definition unsupportedRegexp :: rx where
  "unsupportedRegexp = RAlt (RLit ''function'') (RAlt (RLit ''procedure'') (RLit ''trigger''))"

text \<open>\<open>dbcollationRegex = "_[_A-Za-z0-9]+('([^']*)')"\<close>\<close>

definition dbcollationRegex :: rx where
  "dbcollationRegex =
     RSeqs [RChar (CChar CHR ''_''),
            RPlus (RChar (COneOf [CChar CHR ''_'', CRange CHR ''A'' CHR ''Z'', CRange CHR ''a'' CHR ''z'', CDigit])),
            RChar (CChar (CHR 0x27)), RStar (RChar (CNot [CHR 0x27])), RChar (CChar (CHR 0x27))]"

text \<open>
  The pattern of readAndParseChunk for the administrative comments the parser rejects:
  \<open>^(\/\*[!0-9\s]*SELECT[^\n]*INTO[\s]+@[^\n]*\*\/;\n)$\<close>
\<close>

definition regexExp :: rx where
  "regexExp =
     RSeqs [RLit ''/*'', RStar (RChar (COneOf [CChar CHR ''!'', CDigit, CSpace])), RLit ''SELECT'',
            RStar (RChar (CNot [CHR 0x0A])), RLit ''INTO'', RPlus (RChar CSpace), RLit ''@'',
            RStar (RChar (CNot [CHR 0x0A])), RLit ''*/;'', RChar (CChar (CHR 0x0A))]"

definition MysqlSpatialDataTypes :: "string list" where
  "MysqlSpatialDataTypes =
     [''geometrycollection'', ''multipoint'', ''multilinestring'', ''multipolygon'', ''point'',
      ''linestring'', ''polygon'', ''geometry'']"

text \<open>\<open>spatialRegexps\<close>: for each spatial type, \<open>"(?i)" + " " + spatial\<close>.\<close>

definition spatialRegexps :: "rx list" where
  "spatialRegexps = map (\<lambda>spatial. RLitCI ('' '' @ spatial)) MysqlSpatialDataTypes"

text \<open>\<open>spatialIndexRegex = "(?i)\\sSPATIAL\\s"\<close> and \<open>spatialSridRegex = "(?i)\\sSRID\\s\\d*"\<close>\<close>

definition spatialIndexRegex :: rx where
  "spatialIndexRegex = RSeqs [RChar CSpace, RLitCI ''SPATIAL'', RChar CSpace]"

definition spatialSridRegex :: rx where
  "spatialSridRegex = RSeqs [RChar CSpace, RLitCI ''SRID'', RChar CSpace, RStar (RChar CDigit)]"

section \<open>The source schema and the conversion context\<close>

text \<open>
  The structs of package \<open>schema\<close> with the fields mysqldump.go reads and writes. A Go map
  is an association list (looked up with \<open>map_of\<close>, written with \<open>AList.update\<close>); a
  missing key reads as the zero value of the element type, as in Go. A nil slice and an
  empty slice are both \<open>[]\<close>: the code tests \<open>!= nil\<close> only on slices that are nil or
  hold at least one element.
\<close>

record Ignored =
  Ignored_Check :: bool
  Ignored_Default :: bool
  Ignored_AutoIncrement :: bool

record SchemaType =
  Type_Name :: string
  Type_Mods :: "int list"
  Type_ArrayBounds :: "int list"

record Column =
  Column_Id :: string
  Column_Name :: string
  Column_Type :: SchemaType
  Column_NotNull :: bool
  Column_Ignored :: Ignored

record Key =
  Key_ColId :: string
  Key_Desc :: bool
  Key_Order :: int

record ForeignKey =
  FK_Id :: string
  FK_Name :: string
  FK_ColumnNames :: "string list"
  FK_ColIds :: "string list"
  FK_ReferTableName :: string
  FK_ReferColumnNames :: "string list"
  FK_OnDelete :: string
  FK_OnUpdate :: string

record Index =
  Index_Id :: string
  Index_Name :: string
  Index_Unique :: bool
  Index_Keys :: "Key list"

record CheckConstraint =
  CC_Id :: string
  CC_Name :: string
  CC_Expr :: string
  CC_ExprId :: string

record Table =
  Table_Id :: string
  Table_Name :: string
  Table_ColIds :: "string list"
  Table_ColNameIdMap :: "(string \<times> string) list"
  Table_ColDefs :: "(string \<times> Column) list"
  Table_PrimaryKeys :: "Key list"
  Table_ForeignKeys :: "ForeignKey list"
  Table_Indexes :: "Index list"
  Table_CheckConstraints :: "CheckConstraint list"

text \<open>The zero values of the structs (Go's \<open>schema.Column{}\<close>, \<open>schema.ForeignKey{}\<close>, ...).\<close>

definition zero_Column :: Column where
  "zero_Column =
     \<lparr>Column_Id = [], Column_Name = [],
      Column_Type = \<lparr>Type_Name = [], Type_Mods = [], Type_ArrayBounds = []\<rparr>,
      Column_NotNull = False,
      Column_Ignored = \<lparr>Ignored_Check = False, Ignored_Default = False, Ignored_AutoIncrement = False\<rparr>\<rparr>"

definition zero_ForeignKey :: ForeignKey where
  "zero_ForeignKey =
     \<lparr>FK_Id = [], FK_Name = [], FK_ColumnNames = [], FK_ColIds = [], FK_ReferTableName = [],
      FK_ReferColumnNames = [], FK_OnDelete = [], FK_OnUpdate = []\<rparr>"

definition zero_Table :: Table where
  "zero_Table =
     \<lparr>Table_Id = [], Table_Name = [], Table_ColIds = [], Table_ColNameIdMap = [],
      Table_ColDefs = [], Table_PrimaryKeys = [], Table_ForeignKeys = [], Table_Indexes = [],
      Table_CheckConstraints = []\<rparr>"

text \<open>
  The target table (\<open>ddl.CreateTable\<close>) with its column ids, which the dump processor
  reads, and its primary key (\<open>[]ddl.IndexKey\<close>).
\<close>

record IndexKey =
  IK_ColId :: string
  IK_Desc :: bool
  IK_Order :: int

record CreateTable =
  SpTable_Name :: string
  SpTable_ColIds :: "string list"
  SpTable_PrimaryKeys :: "IndexKey list"

definition zero_CreateTable :: CreateTable where
  "zero_CreateTable = \<lparr>SpTable_Name = [], SpTable_ColIds = [], SpTable_PrimaryKeys = []\<rparr>"

text \<open>
  The methods of \<open>internal.Conv\<close> that mysqldump.go calls are defined outside the files
  at hand. A call of one of them is recorded, with its arguments, in the context's
  \<open>Conv_calls\<close>, in the order of the calls; the fields mysqldump.go reads and assigns
  itself (\<open>SrcSchema\<close>, \<open>SpSchema\<close>, \<open>Stats.Rows\<close>, \<open>Stats.BadRows\<close>,
  \<open>Stats.Reparsed\<close>, \<open>TimezoneOffset\<close>) are fields of the record. \<open>ProcessDataRow\<close>,
  the row writer of the same package, is recorded in the same way.
\<close>

datatype call =
    Unexpected string
  | SkipStatement string
  | SchemaStatement string
  | DataStatement string
  | ErrorInStatement string
  | StatsAddBadRow string bool
  | CollectBadRow string "string list" "string list"
  | ProcessDataRow string "string list" "string list"

datatype conv_mode = schemaOnly | dataOnly

record Conv =
  Conv_mode :: conv_mode
  SrcSchema :: "(string \<times> Table) list"
  SpSchema :: "(string \<times> CreateTable) list"
  Stats_Rows :: "(string \<times> int) list"
  Stats_BadRows :: "(string \<times> int) list"
  Stats_Reparsed :: int
  TimezoneOffset :: string
  Conv_calls :: "call list"
  Cntr :: nat

definition SchemaMode :: "Conv \<Rightarrow> bool" where
  "SchemaMode conv = (Conv_mode conv = schemaOnly)"

definition DataMode :: "Conv \<Rightarrow> bool" where
  "DataMode conv = (Conv_mode conv = dataOnly)"

definition record_call :: "call \<Rightarrow> Conv \<Rightarrow> Conv" where
  "record_call c conv = conv\<lparr>Conv_calls := Conv_calls conv @ [c]\<rparr>"

text \<open>Reading a Go map: the zero value for a missing key.\<close>

definition lookup_str :: "(string \<times> string) list \<Rightarrow> string \<Rightarrow> string" where
  "lookup_str m k = (case map_of m k of None \<Rightarrow> [] | Some v \<Rightarrow> v)"

definition lookup_int :: "(string \<times> int) list \<Rightarrow> string \<Rightarrow> int" where
  "lookup_int m k = (case map_of m k of None \<Rightarrow> 0 | Some v \<Rightarrow> v)"

definition lookup_Column :: "(string \<times> Column) list \<Rightarrow> string \<Rightarrow> Column" where
  "lookup_Column m k = (case map_of m k of None \<Rightarrow> zero_Column | Some v \<Rightarrow> v)"

definition lookup_Table :: "(string \<times> Table) list \<Rightarrow> string \<Rightarrow> Table" where
  "lookup_Table m k = (case map_of m k of None \<Rightarrow> zero_Table | Some v \<Rightarrow> v)"

definition lookup_CreateTable :: "(string \<times> CreateTable) list \<Rightarrow> string \<Rightarrow> CreateTable" where
  "lookup_CreateTable m k = (case map_of m k of None \<Rightarrow> zero_CreateTable | Some v \<Rightarrow> v)"

text \<open>
  Modelled from the spec: the id generators of package \<open>internal\<close>
  (\<open>GenerateTableId\<close>, \<open>GenerateColumnId\<close>, ...), which are not in the files at hand.
  "Every table/column/key/index/constraint gets a process-unique stable id at creation":
  a prefix and the next value of one counter (\<open>Cntr\<close>).
\<close>

definition GenerateId :: "string \<Rightarrow> Conv \<Rightarrow> Conv \<times> string" where
  "GenerateId pre conv = (conv\<lparr>Cntr := Suc (Cntr conv)\<rparr>, pre @ show_nat (Suc (Cntr conv)))"

definition GenerateTableId :: "Conv \<Rightarrow> Conv \<times> string" where
  "GenerateTableId = GenerateId ''t''"

definition GenerateColumnId :: "Conv \<Rightarrow> Conv \<times> string" where
  "GenerateColumnId = GenerateId ''c''"

definition GenerateForeignkeyId :: "Conv \<Rightarrow> Conv \<times> string" where
  "GenerateForeignkeyId = GenerateId ''f''"

definition GenerateIndexesId :: "Conv \<Rightarrow> Conv \<times> string" where
  "GenerateIndexesId = GenerateId ''i''"

definition GenerateExpressionId :: "Conv \<Rightarrow> Conv \<times> string" where
  "GenerateExpressionId = GenerateId ''e''"

definition GenerateCheckConstrainstId :: "Conv \<Rightarrow> Conv \<times> string" where
  "GenerateCheckConstrainstId = GenerateId ''cc''"

text \<open>
  Modelled from the spec: the lookups of package \<open>internal\<close> by source name
  (\<open>GetSrcTableByName\<close>, \<open>GetTableIdFromSrcName\<close>, \<open>GetColIdFromSrcName\<close>,
  \<open>GetSrcColNameIdMap\<close>), which are not in the files at hand: "resolve the table by
  name", "resolve column names to ids". A name that is not found gives the empty id.
\<close>

definition GetSrcTableByName :: "(string \<times> Table) list \<Rightarrow> string \<Rightarrow> Table option" where
  "GetSrcTableByName srcSchema name = find (\<lambda>t. Table_Name t = name) (map snd srcSchema)"

definition GetTableIdFromSrcName :: "(string \<times> Table) list \<Rightarrow> string \<Rightarrow> string" where
  "GetTableIdFromSrcName srcSchema name =
     (case find (\<lambda>(tid, t). Table_Name t = name) srcSchema of None \<Rightarrow> [] | Some (tid, t) \<Rightarrow> tid)"

definition GetColIdFromSrcName :: "(string \<times> Column) list \<Rightarrow> string \<Rightarrow> string" where
  "GetColIdFromSrcName colDefs name =
     (case find (\<lambda>(cid, c). Column_Name c = name) colDefs of None \<Rightarrow> [] | Some (cid, c) \<Rightarrow> cid)"

definition GetSrcColNameIdMap :: "Table \<Rightarrow> (string \<times> string) list" where
  "GetSrcColNameIdMap t = map (\<lambda>(cid, c). (Column_Name c, cid)) (Table_ColDefs t)"

text \<open>
  Modelled from the spec: \<open>common.IntersectionOfTwoStringSlices\<close>, which is not in the
  files at hand: "intersect with the target column-id set". The ids of the second slice
  that occur in the first, in the order of the second.
\<close>

definition IntersectionOfTwoStringSlices :: "string list \<Rightarrow> string list \<Rightarrow> string list" where
  "IntersectionOfTwoStringSlices a b = filter (\<lambda>v. v \<in> set a) b"

text \<open>
  Modelled from the spec: the constant \<open>constants.FK_NO_ACTION\<close>, which is not in the
  files at hand ("degrade to no action").
\<close>

definition FK_NO_ACTION :: string where
  "FK_NO_ACTION = ''NO ACTION''"

text \<open>
  A run of the code ends with a value, with a Go panic (an index or a slice out of range,
  a nil dereference), or with the error that processMySQLDump returns.
\<close>

datatype fault = Panic string | Error string

section \<open>The statements the parser returns\<close>

text \<open>
  The nodes of the SQL parser's syntax tree (package \<open>ast\<close> of the parser the tool
  imports) with the fields mysqldump.go reads. A pointer the code tests against nil, or
  dereferences without a test where the parser can leave it nil, is an \<open>option\<close>.
  \<open>CIStr.String()\<close> and \<open>ColumnName.OrigColName()\<close> both give the name as written, so
  a name read in these ways is a string. \<open>ColumnName.String()\<close>, which updateColsByOption
  calls on the name of a column definition, gives another text: the name in lower case,
  qualified by the schema and the table when the statement names them. A column
  definition's name therefore has both texts.
\<close>

record ColumnName =
  CN_OrigColName :: string
  CN_String :: string

record TableName =
  TN_Schema :: string
  TN_Name :: string

text \<open>
  An index part: its column (nil for an expression part) and the direction written in the
  statement.
\<close>

record IndexPartSpecification =
  IPS_Column :: "string option"
  IPS_Desc :: bool

datatype ReferOptionType =
    ReferOptionNoOption
  | ReferOptionRestrict
  | ReferOptionCascade
  | ReferOptionSetNull
  | ReferOptionNoAction
  | ReferOptionSetDefault

fun ReferOpt_String :: "ReferOptionType \<Rightarrow> string" where
  "ReferOpt_String ReferOptionRestrict = ''RESTRICT''"
| "ReferOpt_String ReferOptionCascade = ''CASCADE''"
| "ReferOpt_String ReferOptionSetNull = ''SET NULL''"
| "ReferOpt_String ReferOptionNoAction = ''NO ACTION''"
| "ReferOpt_String ReferOptionSetDefault = ''SET DEFAULT''"
| "ReferOpt_String ReferOptionNoOption = []"

record ReferenceDef =
  Refer_Table :: TableName
  Refer_IndexPartSpecifications :: "IndexPartSpecification list"
  Refer_OnDelete :: ReferOptionType
  Refer_OnUpdate :: ReferOptionType

datatype ConstraintType =
    ConstraintNoConstraint
  | ConstraintPrimaryKey
  | ConstraintKey
  | ConstraintIndex
  | ConstraintUniq
  | ConstraintUniqKey
  | ConstraintUniqIndex
  | ConstraintForeignKey
  | ConstraintFulltext
  | ConstraintCheck

text \<open>
  \<open>Constraint_Expr\<close> is the text \<open>expressionToString\<close> restores from the constraint's
  expression (the parser's \<open>Restore\<close>; the empty string when it fails).
\<close>

record Constraint =
  Constraint_Tp :: ConstraintType
  Constraint_Name :: string
  Constraint_Keys :: "IndexPartSpecification list"
  Constraint_Refer :: "ReferenceDef option"
  Constraint_Expr :: string

text \<open>
  A literal of the parser (\<open>driver.ValueExpr\<close>) by what \<open>GetValue()\<close> returns: nil, an
  \<open>int64\<close>, a decimal (with its \<open>%v\<close> text and the \<open>%v\<close> text of \<open>-1 * ToFloat64()\<close>,
  \<open>None\<close> when \<open>ToFloat64\<close> fails), or a value of another type (with its \<open>%v\<close> and \<open>%T\<close>
  texts).
\<close>

datatype GoValue =
    VNil
  | VInt64 int
  | VMyDecimal string "string option"
  | VOther string string

datatype opcode = Minus | OtherOp string

datatype ExprNode =
    ValueExpr GoValue
  | UnaryOperationExpr opcode ExprNode
  | OtherExpr string

datatype ColumnOptionType =
    ColumnOptionNoOption
  | ColumnOptionPrimaryKey
  | ColumnOptionNotNull
  | ColumnOptionAutoIncrement
  | ColumnOptionDefaultValue
  | ColumnOptionUniqKey
  | ColumnOptionNull
  | ColumnOptionOnUpdate
  | ColumnOptionFulltext
  | ColumnOptionComment
  | ColumnOptionGenerated
  | ColumnOptionReference
  | ColumnOptionCollate
  | ColumnOptionCheck

record ColumnOption =
  Option_Tp :: ColumnOptionType
  Option_Expr :: "ExprNode option"
  Option_Refer :: "ReferenceDef option"

text \<open>The column's type: the text of \<open>Tp.String()\<close> and the members of \<open>Tp.GetElems()\<close>.\<close>

record FieldType =
  FT_String :: string
  FT_Elems :: "string list"

record ColumnDef =
  ColDef_Name :: "ColumnName option"
  ColDef_Tp :: "FieldType option"
  ColDef_Options :: "ColumnOption list"

record CreateTableStmt =
  CT_Table :: "TableName option"
  CT_Cols :: "ColumnDef list"
  CT_Constraints :: "Constraint list"

datatype AlterTableType = AlterTableAddConstraint | AlterTableModifyColumn | AlterTableOther

record AlterTableSpec =
  Spec_Tp :: AlterTableType
  Spec_Constraint :: "Constraint option"
  Spec_NewColumns :: "ColumnDef list"

record AlterTableStmt =
  AT_Table :: "TableName option"
  AT_Specs :: "AlterTableSpec list"

record VariableAssignment =
  Var_Name :: string
  Var_Value :: ExprNode

record SetStmt =
  Set_Variables :: "VariableAssignment list"

datatype ResultSetNode = TableSource_TableName TableName | TableSource_Other | ResultSet_Other

record AstJoin =
  Join_Left :: "ResultSetNode option"

record TableRefsClause =
  TableRefs :: "AstJoin option"

record InsertStmt =
  Ins_Table :: "TableRefsClause option"
  Ins_Columns :: "string list option"
  Ins_Lists :: "ExprNode list list option"

datatype IndexKeyType = IndexKeyTypeNone | IndexKeyTypeUnique | IndexKeyTypeSpatial | IndexKeyTypeFullText

record CreateIndexStmt =
  CI_Table :: "TableName option"
  CI_IndexName :: string
  CI_KeyType :: IndexKeyType
  CI_IndexPartSpecifications :: "IndexPartSpecification list"

text \<open>
  A statement node. \<open>StmtOther ty\<close> is a node of any other type, \<open>ty\<close> the text of
  \<open>reflect.TypeOf\<close> for it (\<open>"*ast.DropTableStmt"\<close>, ...).
\<close>

datatype StmtNode =
    StmtCreateTable CreateTableStmt
  | StmtAlterTable AlterTableStmt
  | StmtSet SetStmt
  | StmtInsert InsertStmt
  | StmtCreateIndex CreateIndexStmt
  | StmtOther string

fun TypeOf :: "StmtNode \<Rightarrow> string" where
  "TypeOf (StmtCreateTable s) = ''*ast.CreateTableStmt''"
| "TypeOf (StmtAlterTable s) = ''*ast.AlterTableStmt''"
| "TypeOf (StmtSet s) = ''*ast.SetStmt''"
| "TypeOf (StmtInsert s) = ''*ast.InsertStmt''"
| "TypeOf (StmtCreateIndex s) = ''*ast.CreateIndexStmt''"
| "TypeOf (StmtOther ty) = ty"

text \<open>
  What the dump processor is given from outside the files at hand: the SQL parser
  (\<open>parser.New().Parse(chunk, "", "")\<close>, \<open>Inl\<close> the text of its error),
  \<open>strings.ToLower\<close> with its Unicode tables, \<open>common.PrepareValues\<close> (table id,
  column-name-to-id map, common column ids, source columns, values; \<open>Inl\<close> its error) and
  \<open>internal.ResolveForeignKeyIds\<close>.
\<close>

record Ext =
  Ext_Parse :: "string \<Rightarrow> string + StmtNode list"
  Ext_ToLower :: "string \<Rightarrow> string"
  Ext_PrepareValues ::
    "string \<Rightarrow> (string \<times> string) list \<Rightarrow> string list \<Rightarrow> string list \<Rightarrow> string list \<Rightarrow> string + string list"
  Ext_ResolveForeignKeyIds :: "(string \<times> Table) list \<Rightarrow> (string \<times> Table) list"

section \<open>sources/mysql/mysqldump.go\<close>

subsection \<open>Logging helpers\<close>

definition NodeType :: "StmtNode \<Rightarrow> string" where
  "NodeType n = TrimPrefix (TypeOf n) ''*ast.''"

definition logStmtError :: "Conv \<Rightarrow> StmtNode \<Rightarrow> string \<Rightarrow> Conv" where
  "logStmtError conv stmt err =
     record_call (ErrorInStatement (NodeType stmt))
       (record_call (Unexpected (''Processing '' @ TypeOf stmt @ '' statement: '' @ err)) conv)"

definition checkEmpty :: "Conv \<Rightarrow> Key list \<Rightarrow> string \<Rightarrow> Conv" where
  "checkEmpty conv pkeys stmtType =
     (if length pkeys \<noteq> 0
      then record_call
             (Unexpected (''Multiple primary keys found. `'' @ stmtType @
                          ''` statement is overwriting primary key'')) conv
      else conv)"

subsection \<open>Names, types and keys\<close>

definition getTableName :: "TableName \<Rightarrow> string + string" where
  "getTableName table =
     (let l = (if TN_Schema table \<noteq> [] then [TN_Schema table] else [])
      in if TN_Name table = [] then Inl (''tablename is empty: can'' @ [CHR 0x27] @ ''t build table name'')
         else Inr (Join (l @ [TN_Name table]) ''.''))"

text \<open>
  getTypeModsAndID. \<open>values[1:len(values)-1]\<close> panics when the pattern found nothing
  (\<open>values\<close> is empty).
\<close>

fun parseMods :: "string list \<Rightarrow> int list option" where
  "parseMods [] = Some []"
| "parseMods (i # strMods) =
     (case ParseInt i of None \<Rightarrow> None
      | Some j \<Rightarrow> (case parseMods strMods of None \<Rightarrow> None | Some mods \<Rightarrow> Some (j # mods)))"

definition getTypeModsAndID :: "Conv \<Rightarrow> string \<Rightarrow> fault + (Conv \<times> string \<times> int list)" where
  "getTypeModsAndID conv columnType =
     (if Contains columnType ''('' then
        (let id = hd (Split columnType (CHR ''(''))
         in if id = ''set'' \<or> id = ''enum'' then Inr (conv, id, [])
            else
              (let values = FindString valuesRegexp columnType
               in if length values < 2 then Inl (Panic ''slice bounds out of range'')
                  else
                    (case parseMods (Split (take (length values - 2) (drop 1 values)) (CHR '','')) of
                       None \<Rightarrow>
                         Inr (record_call
                                (Unexpected (''Unable to get modifiers for `'' @ id @ ''` datatype.'')) conv,
                              id, [])
                     | Some mods \<Rightarrow>
                         Inr (conv,
                              if Contains id '' '' then TrimSuffix columnType '' BINARY'' else id,
                              mods))))
      else Inr (conv,
                if Contains columnType '' '' then TrimSuffix columnType '' BINARY'' else columnType,
                []))"

definition getArrayBounds :: "string \<Rightarrow> string list \<Rightarrow> int list" where
  "getArrayBounds ft elem = (if HasPrefix ft ''set'' then [int (length elem)] else [])"

text \<open>
  toSchemaKeys. \<open>spec.Column.OrigColName()\<close> dereferences the part's column, which is nil
  for an expression part. Every key is built as \<open>schema.Key{ColId: colId}\<close>: \<open>Desc\<close> is left
  at its zero value.
\<close>

fun toSchemaKeys :: "IndexPartSpecification list \<Rightarrow> (string \<times> string) list \<Rightarrow> fault + Key list" where
  "toSchemaKeys [] colNameToIdMap = Inr []"
| "toSchemaKeys (spec # columns) colNameToIdMap =
     (case IPS_Column spec of
        None \<Rightarrow> Inl (Panic ''nil pointer dereference'')
      | Some specColName \<Rightarrow>
          (case toSchemaKeys columns colNameToIdMap of
             Inl e \<Rightarrow> Inl e
           | Inr keys \<Rightarrow>
               (case map_of colNameToIdMap specColName of
                  Some colId \<Rightarrow> Inr (\<lparr>Key_ColId = colId, Key_Desc = False, Key_Order = 0\<rparr> # keys)
                | None \<Rightarrow> Inr keys)))"

text \<open>
  updateCols. The column definitions are a Go map, written in place; a name that is not in
  \<open>colNameToIdMap\<close> gives the empty id, whose entry is then written as well. \<open>None\<close> is
  the nil map: reading it gives the zero column, and the assignment \<open>colDef[cid] = cd\<close>
  panics.
\<close>

fun updateCols ::
  "ConstraintType \<Rightarrow> IndexPartSpecification list \<Rightarrow> (string \<times> Column) list option \<Rightarrow>
   (string \<times> string) list \<Rightarrow> fault + (string \<times> Column) list option" where
  "updateCols ct [] colDef colNameToIdMap = Inr colDef"
| "updateCols ct (column # colNames) colDef colNameToIdMap =
     (case IPS_Column column of
        None \<Rightarrow> Inl (Panic ''nil pointer dereference'')
      | Some colName \<Rightarrow>
          (case colDef of
             None \<Rightarrow> Inl (Panic ''assignment to entry in nil map'')
           | Some colDefs \<Rightarrow>
               (let cid = lookup_str colNameToIdMap colName;
                    cd = lookup_Column colDefs cid;
                    cd' = (case ct of
                             ConstraintCheck \<Rightarrow>
                               cd\<lparr>Column_Ignored := (Column_Ignored cd)\<lparr>Ignored_Check := True\<rparr>\<rparr>
                           | ConstraintPrimaryKey \<Rightarrow> cd\<lparr>Column_NotNull := True\<rparr>
                           | _ \<Rightarrow> cd)
                in updateCols ct colNames (Some (AList.update cid cd' colDefs)) colNameToIdMap)))"

subsection \<open>Foreign keys\<close>

text \<open>
  The loop of toForeignKeys over the constraint's columns: \<open>referColumns[i]\<close> panics when
  the reference lists fewer columns than the constraint.
\<close>

fun toForeignKeys_names ::
  "IndexPartSpecification list \<Rightarrow> IndexPartSpecification list \<Rightarrow> fault + (string list \<times> string list)" where
  "toForeignKeys_names [] referColumns = Inr ([], [])"
| "toForeignKeys_names (column # columns) referColumns =
     (case IPS_Column column of
        None \<Rightarrow> Inl (Panic ''nil pointer dereference'')
      | Some colName \<Rightarrow>
          (case referColumns of
             [] \<Rightarrow> Inl (Panic ''index out of range'')
           | r # rs \<Rightarrow>
               (case IPS_Column r of
                  None \<Rightarrow> Inl (Panic ''nil pointer dereference'')
                | Some referColName \<Rightarrow>
                    (case toForeignKeys_names columns rs of
                       Inl e \<Rightarrow> Inl e
                     | Inr (colNames, referColNames) \<Rightarrow>
                         Inr (colName # colNames, referColName # referColNames)))))"

definition toForeignKeys :: "Conv \<Rightarrow> Constraint \<Rightarrow> fault + (Conv \<times> ForeignKey)" where
  "toForeignKeys conv fk =
     (case Constraint_Refer fk of
        None \<Rightarrow> Inl (Panic ''nil pointer dereference'')
      | Some refer \<Rightarrow>
          (case getTableName (Refer_Table refer) of
             Inl err \<Rightarrow> Inr (record_call (Unexpected err) conv, zero_ForeignKey)
           | Inr referTable \<Rightarrow>
               (case toForeignKeys_names (Constraint_Keys fk) (Refer_IndexPartSpecifications refer) of
                  Inl e \<Rightarrow> Inl e
                | Inr (colNames, referColNames) \<Rightarrow>
                    (let onDelete = ReferOpt_String (Refer_OnDelete refer);
                         onUpdate = ReferOpt_String (Refer_OnUpdate refer);
                         onDelete' = (if onDelete = [] then FK_NO_ACTION else onDelete);
                         onUpdate' = (if onUpdate = [] then FK_NO_ACTION else onUpdate);
                         (conv1, fid) = GenerateForeignkeyId conv
                     in Inr (conv1,
                             \<lparr>FK_Id = fid, FK_Name = Constraint_Name fk, FK_ColumnNames = colNames,
                              FK_ColIds = [], FK_ReferTableName = referTable,
                              FK_ReferColumnNames = referColNames,
                              FK_OnDelete = onDelete', FK_OnUpdate = onUpdate'\<rparr>)))))"

subsection \<open>Column definitions\<close>

record columnConstraint =
  isPk :: bool
  isUniqueKey :: bool
  fk :: ForeignKey

definition zero_columnConstraint :: columnConstraint where
  "zero_columnConstraint = \<lparr>isPk = False, isUniqueKey = False, fk = zero_ForeignKey\<rparr>"

text \<open>
  One round of the loop of updateColsByOption over \<open>col.Options\<close>; \<open>colName\<close> is
  \<open>col.Name\<close>. A foreign key of a column definition is built from the option's
  reference as it stands: \<open>OnDelete\<close> and \<open>OnUpdate\<close> are the texts of the parsed
  options. Its column is \<open>col.Name.String()\<close>, its referenced column
  \<open>Column.Name.String()\<close>, the name as written.
\<close>

definition updateColsByOption_elem ::
  "Conv \<Rightarrow> ColumnName option \<Rightarrow> ColumnOption \<Rightarrow> Column \<Rightarrow> columnConstraint \<Rightarrow>
   fault + (Conv \<times> Column \<times> columnConstraint)" where
  "updateColsByOption_elem conv colName elem column cc =
     (case Option_Tp elem of
        ColumnOptionPrimaryKey \<Rightarrow> Inr (conv, column\<lparr>Column_NotNull := True\<rparr>, cc\<lparr>isPk := True\<rparr>)
      | ColumnOptionNotNull \<Rightarrow> Inr (conv, column\<lparr>Column_NotNull := True\<rparr>, cc)
      | ColumnOptionAutoIncrement \<Rightarrow>
          Inr (conv, column\<lparr>Column_Ignored := (Column_Ignored column)\<lparr>Ignored_AutoIncrement := True\<rparr>\<rparr>, cc)
      | ColumnOptionDefaultValue \<Rightarrow>
          (let nullDefault = (case Option_Expr elem of Some (ValueExpr VNil) \<Rightarrow> True | _ \<Rightarrow> False)
           in if \<not> nullDefault
              then Inr (conv, column\<lparr>Column_Ignored := (Column_Ignored column)\<lparr>Ignored_Default := True\<rparr>\<rparr>, cc)
              else Inr (conv, column, cc))
      | ColumnOptionUniqKey \<Rightarrow> Inr (conv, column, cc\<lparr>isUniqueKey := True\<rparr>)
      | ColumnOptionCheck \<Rightarrow>
          Inr (conv, column\<lparr>Column_Ignored := (Column_Ignored column)\<lparr>Ignored_Check := True\<rparr>\<rparr>, cc)
      | ColumnOptionReference \<Rightarrow>
          (case colName of
             None \<Rightarrow> Inl (Panic ''nil pointer dereference'')
           | Some columnName \<Rightarrow>
               (case Option_Refer elem of
                  None \<Rightarrow> Inl (Panic ''nil pointer dereference'')
                | Some refer \<Rightarrow>
                    (case getTableName (Refer_Table refer) of
                       Inl err \<Rightarrow> Inr (record_call (Unexpected err) conv, column, cc)
                     | Inr referTable \<Rightarrow>
                         (case Refer_IndexPartSpecifications refer of
                            [] \<Rightarrow> Inl (Panic ''index out of range'')
                          | r # rs \<Rightarrow>
                              (case IPS_Column r of
                                 None \<Rightarrow> Inl (Panic ''nil pointer dereference'')
                               | Some referColumn \<Rightarrow>
                                   Inr (conv, column,
                                        cc\<lparr>fk :=
                                             \<lparr>FK_Id = [], FK_Name = [], FK_ColumnNames = [CN_String columnName],
                                              FK_ColIds = [], FK_ReferTableName = referTable,
                                              FK_ReferColumnNames = [referColumn],
                                              FK_OnDelete = ReferOpt_String (Refer_OnDelete refer),
                                              FK_OnUpdate = ReferOpt_String (Refer_OnUpdate refer)\<rparr>\<rparr>))))))
      | _ \<Rightarrow> Inr (conv, column, cc))"

fun updateColsByOption_loop ::
  "Conv \<Rightarrow> ColumnName option \<Rightarrow> ColumnOption list \<Rightarrow> Column \<Rightarrow> columnConstraint \<Rightarrow>
   fault + (Conv \<times> Column \<times> columnConstraint)" where
  "updateColsByOption_loop conv colName [] column cc = Inr (conv, column, cc)"
| "updateColsByOption_loop conv colName (elem # opts) column cc =
     (case updateColsByOption_elem conv colName elem column cc of
        Inl e \<Rightarrow> Inl e
      | Inr (conv1, column1, cc1) \<Rightarrow> updateColsByOption_loop conv1 colName opts column1 cc1)"

text \<open>
  updateColsByOption writes the column through its pointer and returns the constraint;
  here the written column is returned with it.
\<close>

definition updateColsByOption ::
  "Conv \<Rightarrow> string \<Rightarrow> ColumnDef \<Rightarrow> Column \<Rightarrow> fault + (Conv \<times> Column \<times> columnConstraint)" where
  "updateColsByOption conv tableName col column =
     updateColsByOption_loop conv (ColDef_Name col) (ColDef_Options col) column zero_columnConstraint"

text \<open>
  processColumn returns the name, the column and the constraint, or (\<open>Inl\<close>) the text of
  its error. Its \<open>return name, column, updateColsByOption(conv, tableName, col, &column), nil\<close>
  returns the column as updateColsByOption has written it.
\<close>

definition processColumn ::
  "Conv \<Rightarrow> string \<Rightarrow> ColumnDef \<Rightarrow>
   fault + (Conv \<times> (string + (string \<times> Column \<times> columnConstraint)))" where
  "processColumn conv tableName col =
     (case ColDef_Name col of
        None \<Rightarrow> Inr (conv, Inl ''column name is nil'')
      | Some colName \<Rightarrow>
          (let name = CN_OrigColName colName
           in case ColDef_Tp col of
             None \<Rightarrow>
               Inr (conv, Inl (''can'' @ [CHR 0x27] @ ''t get column type for '' @ name @
                               '': found nil *ast.ColumnDef.Tp''))
           | Some tp \<Rightarrow>
               (case getTypeModsAndID conv (FT_String tp) of
                  Inl e \<Rightarrow> Inl e
                | Inr (conv1, tid, mods) \<Rightarrow>
                    (let ty = \<lparr>Type_Name = tid, Type_Mods = mods,
                               Type_ArrayBounds = getArrayBounds (FT_String tp) (FT_Elems tp)\<rparr>;
                         column = zero_Column\<lparr>Column_Name := name, Column_Type := ty\<rparr>
                     in (case updateColsByOption conv1 tableName col column of
                           Inl e \<Rightarrow> Inl e
                         | Inr (conv2, column1, cc) \<Rightarrow> Inr (conv2, Inr (name, column1, cc)))))))"

subsection \<open>Constraints\<close>

definition set_SrcTable :: "Conv \<Rightarrow> string \<Rightarrow> Table \<Rightarrow> Conv" where
  "set_SrcTable conv tableId st = conv\<lparr>SrcSchema := AList.update tableId st (SrcSchema conv)\<rparr>"

text \<open>
  The column definitions of the table that \<open>conv.SrcSchema[tableId]\<close> reads: the map
  of the table when the id is in the schema (processCreateTable stores every table with
  a map it has made), and the nil map of the zero table when it is not.
\<close>

definition SrcTable_ColDefs :: "Conv \<Rightarrow> string \<Rightarrow> (string \<times> Column) list option" where
  "SrcTable_ColDefs conv tableId =
     (case map_of (SrcSchema conv) tableId of
        None \<Rightarrow> None
      | Some st \<Rightarrow> Some (Table_ColDefs st))"

definition set_ColDefs :: "(string \<times> Column) list option \<Rightarrow> Table \<Rightarrow> Table" where
  "set_ColDefs colDefs st =
     (case colDefs of None \<Rightarrow> st | Some cds \<Rightarrow> st\<lparr>Table_ColDefs := cds\<rparr>)"

text \<open>
  processConstraint. updateCols writes the column definitions through the map that the
  table read from the schema shares with the stored one; here the written map is put into
  the table that is stored at the end.
\<close>

definition processConstraint ::
  "Conv \<Rightarrow> string \<Rightarrow> Constraint \<Rightarrow> string \<Rightarrow> (string \<times> string) list \<Rightarrow> fault + Conv" where
  "processConstraint conv tableId constraint stmtType colNameToIdMap =
     (let st = lookup_Table (SrcSchema conv) tableId
      in case Constraint_Tp constraint of
           ConstraintPrimaryKey \<Rightarrow>
             (let conv1 = checkEmpty conv (Table_PrimaryKeys st) stmtType
              in case toSchemaKeys (Constraint_Keys constraint) colNameToIdMap of
                   Inl e \<Rightarrow> Inl e
                 | Inr keys \<Rightarrow>
                     (case updateCols ConstraintPrimaryKey (Constraint_Keys constraint)
                             (SrcTable_ColDefs conv tableId) colNameToIdMap of
                        Inl e \<Rightarrow> Inl e
                      | Inr colDefs \<Rightarrow>
                          Inr (set_SrcTable conv1 tableId
                                 (set_ColDefs colDefs (st\<lparr>Table_PrimaryKeys := keys\<rparr>)))))
         | ConstraintForeignKey \<Rightarrow>
             (case toForeignKeys conv constraint of
                Inl e \<Rightarrow> Inl e
              | Inr (conv1, fkey) \<Rightarrow>
                  Inr (set_SrcTable conv1 tableId
                         (st\<lparr>Table_ForeignKeys := Table_ForeignKeys st @ [fkey]\<rparr>)))
         | ConstraintIndex \<Rightarrow>
             (let (conv1, idxId) = GenerateIndexesId conv
              in case toSchemaKeys (Constraint_Keys constraint) colNameToIdMap of
                   Inl e \<Rightarrow> Inl e
                 | Inr keys \<Rightarrow>
                     Inr (set_SrcTable conv1 tableId
                            (st\<lparr>Table_Indexes := Table_Indexes st @
                                   [\<lparr>Index_Id = idxId, Index_Name = Constraint_Name constraint,
                                     Index_Unique = False, Index_Keys = keys\<rparr>]\<rparr>)))
         | ConstraintUniq \<Rightarrow>
             (let (conv1, idxId) = GenerateIndexesId conv
              in case toSchemaKeys (Constraint_Keys constraint) colNameToIdMap of
                   Inl e \<Rightarrow> Inl e
                 | Inr keys \<Rightarrow>
                     Inr (set_SrcTable conv1 tableId
                            (st\<lparr>Table_Indexes := Table_Indexes st @
                                   [\<lparr>Index_Id = idxId, Index_Name = Constraint_Name constraint,
                                     Index_Unique = True, Index_Keys = keys\<rparr>]\<rparr>)))
         | ct \<Rightarrow>
             (case updateCols ct (Constraint_Keys constraint) (SrcTable_ColDefs conv tableId)
                     colNameToIdMap of
                Inl e \<Rightarrow> Inl e
              | Inr colDefs \<Rightarrow> Inr (set_SrcTable conv tableId (set_ColDefs colDefs st))))"

text \<open>
  Modelled from the spec: \<open>checkAndAddParentheses\<close>, which is not in the files at hand:
  "expression captured verbatim, parenthesized if not already".
\<close>

definition checkAndAddParentheses :: "string \<Rightarrow> string" where
  "checkAndAddParentheses e = (if HasPrefix e ''('' \<and> HasSuffix e '')'' then e else ''('' @ e @ '')'')"

text \<open>
  getCheckConstraints. The replacement \<open>"$1"\<close> of \<open>dbcollationRegex\<close> is the quoted text
  of the match: the match from its first quote on.
\<close>

fun getCheckConstraints :: "Conv \<Rightarrow> Constraint list \<Rightarrow> Conv \<times> CheckConstraint list" where
  "getCheckConstraints conv [] = (conv, [])"
| "getCheckConstraints conv (constraint # constraints) =
     (if Constraint_Tp constraint = ConstraintCheck then
        (let exp = Constraint_Expr constraint;
             exp1 = ReplaceAll dbcollationRegex (dropWhile (\<lambda>c. c \<noteq> CHR 0x27)) exp;
             exp2 = checkAndAddParentheses exp1;
             (conv1, exprId) = GenerateExpressionId conv;
             (conv2, ccId) = GenerateCheckConstrainstId conv1;
             (conv3, rest) = getCheckConstraints conv2 constraints
         in (conv3,
             \<lparr>CC_Id = ccId, CC_Name = Constraint_Name constraint, CC_Expr = exp2, CC_ExprId = exprId\<rparr>
             # rest))
      else getCheckConstraints conv constraints)"

subsection \<open>CREATE TABLE\<close>

text \<open>
  The loop of processCreateTable over \<open>stmt.Cols\<close>, on the slices and maps it fills:
  \<open>colIds\<close>, \<open>colDef\<close>, \<open>colNameIdMap\<close>, \<open>keys\<close>, \<open>fkeys\<close> and \<open>index\<close>. \<open>Inl err\<close> is
  the error of processColumn, on which processCreateTable logs and returns.
\<close>

type_synonym colsAcc =
  "string list \<times> (string \<times> Column) list \<times> (string \<times> string) list \<times> Key list \<times>
   ForeignKey list \<times> Index list"

fun processCreateTable_cols ::
  "Conv \<Rightarrow> string \<Rightarrow> ColumnDef list \<Rightarrow> colsAcc \<Rightarrow> fault + (Conv \<times> (string + colsAcc))" where
  "processCreateTable_cols conv tableName [] acc = Inr (conv, Inr acc)"
| "processCreateTable_cols conv tableName (element # cols) acc =
     (case processColumn conv tableName element of
        Inl e \<Rightarrow> Inl e
      | Inr (conv1, Inl err) \<Rightarrow> Inr (conv1, Inl err)
      | Inr (conv1, Inr (name, col0, constraint)) \<Rightarrow>
          (case acc of (colIds, colDef, colNameIdMap, keys, fkeys, index) \<Rightarrow>
             (let (conv2, cid) = GenerateColumnId conv1;
                  col = col0\<lparr>Column_Id := cid\<rparr>;
                  colDef1 = AList.update cid col colDef;
                  colIds1 = colIds @ [cid];
                  colNameIdMap1 = AList.update (Column_Name col) cid colNameIdMap;
                  keys1 = (if isPk constraint then keys @ [\<lparr>Key_ColId = cid, Key_Desc = False, Key_Order = 0\<rparr>] else keys);
                  fkeys1 = (if FK_ColumnNames (fk constraint) \<noteq> [] then fkeys @ [fk constraint] else fkeys)
              in if isUniqueKey constraint then
                   (let (conv3, idxId) = GenerateIndexesId conv2
                    in processCreateTable_cols conv3 tableName cols
                         (colIds1, colDef1, colNameIdMap1, keys1, fkeys1,
                          index @ [\<lparr>Index_Id = idxId, Index_Name = [], Index_Unique = True,
                                    Index_Keys = [\<lparr>Key_ColId = cid, Key_Desc = False, Key_Order = 0\<rparr>]\<rparr>]))
                 else processCreateTable_cols conv2 tableName cols
                        (colIds1, colDef1, colNameIdMap1, keys1, fkeys1, index))))"

fun processCreateTable_constraints :: "Conv \<Rightarrow> string \<Rightarrow> Constraint list \<Rightarrow> fault + Conv" where
  "processCreateTable_constraints conv tableId [] = Inr conv"
| "processCreateTable_constraints conv tableId (constraint # constraints) =
     (case processConstraint conv tableId constraint ''CREATE TABLE''
             (Table_ColNameIdMap (lookup_Table (SrcSchema conv) tableId)) of
        Inl e \<Rightarrow> Inl e
      | Inr conv1 \<Rightarrow> processCreateTable_constraints conv1 tableId constraints)"

definition processCreateTable :: "Conv \<Rightarrow> CreateTableStmt \<Rightarrow> fault + Conv" where
  "processCreateTable conv stmt =
     (case CT_Table stmt of
        None \<Rightarrow> Inr (logStmtError conv (StmtCreateTable stmt) ''table is nil'')
      | Some table \<Rightarrow>
          (let (conv1, tableId) = GenerateTableId conv
           in case getTableName table of
                Inl err \<Rightarrow>
                  Inr (logStmtError conv1 (StmtCreateTable stmt)
                         (''can'' @ [CHR 0x27] @ ''t get table name: '' @ err))
              | Inr tableName \<Rightarrow>
                  (let (conv2, checkConstraints) = getCheckConstraints conv1 (CT_Constraints stmt)
                   in case processCreateTable_cols conv2 tableName (CT_Cols stmt) ([], [], [], [], [], []) of
                        Inl e \<Rightarrow> Inl e
                      | Inr (conv3, Inl err) \<Rightarrow> Inr (logStmtError conv3 (StmtCreateTable stmt) err)
                      | Inr (conv3, Inr (colIds, colDef, colNameIdMap, keys, fkeys, index)) \<Rightarrow>
                          (let conv4 = record_call (SchemaStatement (NodeType (StmtCreateTable stmt))) conv3;
                               conv5 = set_SrcTable conv4 tableId
                                         \<lparr>Table_Id = tableId, Table_Name = tableName, Table_ColIds = colIds,
                                          Table_ColNameIdMap = colNameIdMap, Table_ColDefs = colDef,
                                          Table_PrimaryKeys = keys, Table_ForeignKeys = fkeys,
                                          Table_Indexes = index, Table_CheckConstraints = checkConstraints\<rparr>
                           in processCreateTable_constraints conv5 tableId (CT_Constraints stmt)))))"

subsection \<open>ALTER TABLE, CREATE INDEX, SET\<close>

text \<open>
  One round of the loop of processAlterTable over \<open>stmt.Specs\<close>; the boolean says that
  the function returned (after the error of processColumn). \<open>tbl\<close> is the table found by
  name before the loop: its id and its name-to-id map are read from it in every round.
\<close>

definition processAlterTable_spec ::
  "Conv \<Rightarrow> AlterTableStmt \<Rightarrow> string \<Rightarrow> Table \<Rightarrow> AlterTableSpec \<Rightarrow> fault + (Conv \<times> bool)" where
  "processAlterTable_spec conv stmt tableName tbl item =
     (case Spec_Tp item of
        AlterTableAddConstraint \<Rightarrow>
          (case Spec_Constraint item of
             None \<Rightarrow> Inl (Panic ''nil pointer dereference'')
           | Some constraint \<Rightarrow>
               (case processConstraint conv (Table_Id tbl) constraint ''ALTER TABLE'' (Table_ColNameIdMap tbl) of
                  Inl e \<Rightarrow> Inl e
                | Inr conv1 \<Rightarrow>
                    Inr (record_call (SchemaStatement (NodeType (StmtAlterTable stmt))) conv1, False)))
      | AlterTableModifyColumn \<Rightarrow>
          (case Spec_NewColumns item of
             [] \<Rightarrow> Inl (Panic ''index out of range'')
           | newColumn # others \<Rightarrow>
               (case processColumn conv tableName newColumn of
                  Inl e \<Rightarrow> Inl e
                | Inr (conv1, Inl err) \<Rightarrow> Inr (logStmtError conv1 (StmtAlterTable stmt) err, True)
                | Inr (conv1, Inr (colname, col0, constraint)) \<Rightarrow>
                    (case map_of (SrcSchema conv1) (Table_Id tbl) of
                       None \<Rightarrow> Inl (Panic ''assignment to entry in nil map'')
                     | Some t0 \<Rightarrow>
                         (let col = col0\<lparr>Column_Id := lookup_str (Table_ColNameIdMap tbl) colname\<rparr>;
                              conv2 = set_SrcTable conv1 (Table_Id tbl)
                                        (t0\<lparr>Table_ColDefs := AList.update (Column_Id col) col (Table_ColDefs t0)\<rparr>);
                              conv3 = (if isPk constraint then
                                         (let ctable = lookup_Table (SrcSchema conv2) (Table_Id tbl);
                                              c = checkEmpty conv2 (Table_PrimaryKeys ctable) ''ALTER TABLE''
                                          in set_SrcTable c (Table_Id tbl)
                                               (ctable\<lparr>Table_PrimaryKeys :=
                                                         [\<lparr>Key_ColId = Column_Id col, Key_Desc = False, Key_Order = 0\<rparr>]\<rparr>))
                                       else conv2);
                              conv4 = (if FK_ColIds (fk constraint) \<noteq> [] then
                                         (let ctable = lookup_Table (SrcSchema conv3) (Table_Id tbl)
                                          in set_SrcTable conv3 (Table_Id tbl)
                                               (ctable\<lparr>Table_ForeignKeys :=
                                                         Table_ForeignKeys ctable @ [fk constraint]\<rparr>))
                                       else conv3);
                              conv5 = (if isUniqueKey constraint then
                                         (let ctable = lookup_Table (SrcSchema conv4) (Table_Id tbl)
                                          in set_SrcTable conv4 (Table_Id tbl)
                                               (ctable\<lparr>Table_Indexes :=
                                                         Table_Indexes ctable @
                                                         [\<lparr>Index_Id = [], Index_Name = [], Index_Unique = True,
                                                           Index_Keys = [\<lparr>Key_ColId = colname, Key_Desc = False, Key_Order = 0\<rparr>]\<rparr>]\<rparr>))
                                       else conv4)
                          in Inr (record_call (SchemaStatement (NodeType (StmtAlterTable stmt))) conv5, False)))))
      | AlterTableOther \<Rightarrow> Inr (record_call (SkipStatement (NodeType (StmtAlterTable stmt))) conv, False))"

fun processAlterTable_specs ::
  "Conv \<Rightarrow> AlterTableStmt \<Rightarrow> string \<Rightarrow> Table \<Rightarrow> AlterTableSpec list \<Rightarrow> fault + Conv" where
  "processAlterTable_specs conv stmt tableName tbl [] = Inr conv"
| "processAlterTable_specs conv stmt tableName tbl (item # items) =
     (case processAlterTable_spec conv stmt tableName tbl item of
        Inl e \<Rightarrow> Inl e
      | Inr (conv1, returned) \<Rightarrow>
          if returned then Inr conv1 else processAlterTable_specs conv1 stmt tableName tbl items)"

definition processAlterTable :: "Conv \<Rightarrow> AlterTableStmt \<Rightarrow> fault + Conv" where
  "processAlterTable conv stmt =
     (case AT_Table stmt of
        None \<Rightarrow> Inr (logStmtError conv (StmtAlterTable stmt) ''table is nil'')
      | Some table \<Rightarrow>
          (case getTableName table of
             Inl err \<Rightarrow>
               Inr (logStmtError conv (StmtAlterTable stmt)
                      (''can'' @ [CHR 0x27] @ ''t get table name: '' @ err))
           | Inr tableName \<Rightarrow>
               (case GetSrcTableByName (SrcSchema conv) tableName of
                  Some tbl \<Rightarrow> processAlterTable_specs conv stmt tableName tbl (AT_Specs stmt)
                | None \<Rightarrow> Inr (record_call (SkipStatement (NodeType (StmtAlterTable stmt))) conv))))"

definition processCreateIndex :: "Conv \<Rightarrow> CreateIndexStmt \<Rightarrow> fault + Conv" where
  "processCreateIndex conv stmt =
     (case CI_Table stmt of
        None \<Rightarrow>
          Inr (logStmtError conv (StmtCreateIndex stmt) ''cannot process index statement with nil table'')
      | Some table \<Rightarrow>
          (case getTableName table of
             Inl err \<Rightarrow>
               Inr (logStmtError conv (StmtCreateIndex stmt)
                      (''can'' @ [CHR 0x27] @ ''t get table name: '' @ err))
           | Inr tableName \<Rightarrow>
               (case GetSrcTableByName (SrcSchema conv) tableName of
                  Some tbl \<Rightarrow>
                    (let ctable = lookup_Table (SrcSchema conv) (Table_Id tbl);
                         (conv1, idxId) = GenerateIndexesId conv
                     in case toSchemaKeys (CI_IndexPartSpecifications stmt) (Table_ColNameIdMap tbl) of
                          Inl e \<Rightarrow> Inl e
                        | Inr keys \<Rightarrow>
                            Inr (set_SrcTable conv1 (Table_Id tbl)
                                   (ctable\<lparr>Table_Indexes := Table_Indexes ctable @
                                             [\<lparr>Index_Id = idxId, Index_Name = CI_IndexName stmt,
                                               Index_Unique = (CI_KeyType stmt = IndexKeyTypeUnique),
                                               Index_Keys = keys\<rparr>]\<rparr>)))
                | None \<Rightarrow>
                    Inr (record_call (SkipStatement (NodeType (StmtCreateIndex stmt)))
                           (record_call
                              (Unexpected (''Table '' @ tableName @
                                           '' not found while processing index statement'')) conv)))))"

text \<open>\<open>fmt.Sprintf("%v", v)\<close> for the value of a literal.\<close>

fun Sprintf_v :: "GoValue \<Rightarrow> string" where
  "Sprintf_v VNil = ''<nil>''"
| "Sprintf_v (VInt64 n) = show_int n"
| "Sprintf_v (VMyDecimal shown neg) = shown"
| "Sprintf_v (VOther shown ty) = shown"

text \<open>
  The loop of processSetStmt over \<open>stmt.Variables\<close>: on \<open>TIME_ZONE\<close> it returns unless
  the value is a literal that is not nil.
\<close>

fun processSetStmt_vars :: "Conv \<Rightarrow> SetStmt \<Rightarrow> VariableAssignment list \<Rightarrow> Conv" where
  "processSetStmt_vars conv stmt [] = conv"
| "processSetStmt_vars conv stmt (variable # variables) =
     (if Var_Name variable = ''TIME_ZONE'' then
        (case Var_Value variable of
           ValueExpr v \<Rightarrow>
             (if v = VNil
              then logStmtError conv (StmtSet stmt)
                     (''found nil value in '' @ [CHR 0x27] @ ''SET TIME_ZONE'' @ [CHR 0x27] @ '' statement'')
              else processSetStmt_vars (conv\<lparr>TimezoneOffset := Sprintf_v v\<rparr>) stmt variables)
         | _ \<Rightarrow> conv)
      else processSetStmt_vars conv stmt variables)"

definition processSetStmt :: "Conv \<Rightarrow> SetStmt \<Rightarrow> Conv" where
  "processSetStmt conv stmt = processSetStmt_vars conv stmt (Set_Variables stmt)"

subsection \<open>INSERT\<close>

definition getTableNameInsert :: "TableRefsClause \<Rightarrow> string + string" where
  "getTableNameInsert stmt =
     (case TableRefs stmt of
        None \<Rightarrow> Inl (''can'' @ [CHR 0x27] @ ''t build table name as tablerefs is empty'')
      | Some j \<Rightarrow>
          (case Join_Left j of
             None \<Rightarrow> Inl (''can'' @ [CHR 0x27] @ ''t build table name as Tablerefs.Left is empty'')
           | Some (TableSource_TableName tablenode) \<Rightarrow> getTableName tablenode
           | Some TableSource_Other \<Rightarrow>
               Inl (''Can'' @ [CHR 0x27] @ ''t build table name as table source is of different type'')
           | Some ResultSet_Other \<Rightarrow>
               Inl (''stmt.TableRefs.Left is different type, can'' @ [CHR 0x27] @ ''t build table name'')))"

definition getCols :: "InsertStmt \<Rightarrow> string + string list" where
  "getCols stmt =
     (case Ins_Columns stmt of
        None \<Rightarrow> Inl ''No columns found in insert statement ''
      | Some columns \<Rightarrow> Inr columns)"

fun TypeOf_expr :: "ExprNode \<Rightarrow> string" where
  "TypeOf_expr (ValueExpr v) = ''*driver.ValueExpr''"
| "TypeOf_expr (UnaryOperationExpr opc e) = ''*ast.UnaryOperationExpr''"
| "TypeOf_expr (OtherExpr ty) = ty"

fun Sprintf_opcode :: "opcode \<Rightarrow> string" where
  "Sprintf_opcode Minus = ''minus''"
| "Sprintf_opcode (OtherOp shown) = shown"

text \<open>\<open>-1 * val\<close> on an \<open>int64\<close> wraps around at the least value.\<close>

definition getNegativeUnaryVals :: "GoValue \<Rightarrow> string + string" where
  "getNegativeUnaryVals val =
     (case val of
        VInt64 n \<Rightarrow> Inr (show_int (if n = - (2 ^ 63) then n else - n))
      | VMyDecimal shown neg \<Rightarrow>
          (case neg of
             None \<Rightarrow> Inl (''unexpected UnaryOperationExpr with value '' @ shown)
           | Some s \<Rightarrow> Inr s)
      | VNil \<Rightarrow> Inl ''unexpected UnaryOperationExpr value with type <nil>''
      | VOther shown ty \<Rightarrow> Inl (''unexpected UnaryOperationExpr value with type '' @ ty))"

fun getVals_items :: "ExprNode list \<Rightarrow> string + string list" where
  "getVals_items [] = Inr []"
| "getVals_items (item # row) =
     (case (case item of
              ValueExpr v \<Rightarrow> Inr (Sprintf_v v)
            | UnaryOperationExpr opc e \<Rightarrow>
                (if opc \<noteq> Minus
                 then Inl (''unexpected UnaryOperationExpr node with opcode '' @ Sprintf_opcode opc)
                 else (case e of
                         ValueExpr valExpr \<Rightarrow>
                           (case getNegativeUnaryVals valExpr of
                              Inl err \<Rightarrow>
                                Inl (''unexpected UnaryOperationExpr node with value '' @ Sprintf_v valExpr)
                            | Inr value \<Rightarrow> Inr value)
                       | _ \<Rightarrow>
                           Inl (''unexpected UnaryOperationExpr node with value type '' @ TypeOf_expr e)))
            | OtherExpr ty \<Rightarrow> Inl (''unexpected value node '' @ ty)) of
        Inl err \<Rightarrow> Inl err
      | Inr value \<Rightarrow>
          (case getVals_items row of Inl err \<Rightarrow> Inl err | Inr values \<Rightarrow> Inr (value # values)))"

definition getVals :: "ExprNode list \<Rightarrow> string + string list" where
  "getVals row = (if length row = 0 then Inl ''Found row with zero length'' else getVals_items row)"

definition add_int :: "(string \<times> int) list \<Rightarrow> string \<Rightarrow> int \<Rightarrow> (string \<times> int) list" where
  "add_int m k d = AList.update k (lookup_int m k + d) m"

text \<open>
  The loop of processInsertStmt over \<open>stmt.Lists\<close>. The error of getVals is not tested:
  it is only printed, in the message logged when PrepareValues fails (\<open>%s\<close> prints a nil
  error as \<open>%!s(<nil>)\<close>), and the values are then nil.
\<close>

fun processInsertStmt_rows ::
  "Ext \<Rightarrow> Conv \<Rightarrow> string \<Rightarrow> (string \<times> string) list \<Rightarrow> string list \<Rightarrow> string list \<Rightarrow> Table \<Rightarrow>
   ExprNode list list \<Rightarrow> Conv" where
  "processInsertStmt_rows E conv tableId colNameIdMap commonColIds srcCols srcSchema [] = conv"
| "processInsertStmt_rows E conv tableId colNameIdMap commonColIds srcCols srcSchema (row # rows) =
     (let values = (case getVals row of Inl err \<Rightarrow> [] | Inr vs \<Rightarrow> vs);
          errText = (case getVals row of Inl err \<Rightarrow> err | Inr vs \<Rightarrow> ''%!s(<nil>)'')
      in case Ext_PrepareValues E tableId colNameIdMap commonColIds srcCols values of
           Inl err2 \<Rightarrow>
             processInsertStmt_rows E
               (record_call (CollectBadRow (Table_Name srcSchema) srcCols values)
                  (record_call (StatsAddBadRow (Table_Name srcSchema) (DataMode conv))
                     (record_call
                        (Unexpected (''Error while converting data: '' @ errText @ [CHR 0x0A])) conv)))
               tableId colNameIdMap commonColIds srcCols srcSchema rows
         | Inr newValues \<Rightarrow>
             processInsertStmt_rows E
               (record_call (ProcessDataRow tableId commonColIds newValues) conv)
               tableId colNameIdMap commonColIds srcCols srcSchema rows)"

definition processInsertStmt :: "Ext \<Rightarrow> Conv \<Rightarrow> InsertStmt \<Rightarrow> Conv" where
  "processInsertStmt E conv stmt =
     (case Ins_Table stmt of
        None \<Rightarrow> logStmtError conv (StmtInsert stmt) ''source table is nil''
      | Some table \<Rightarrow>
          (case getTableNameInsert table of
             Inl err \<Rightarrow>
               logStmtError conv (StmtInsert stmt)
                 (''can'' @ [CHR 0x27] @ ''t get source table name: '' @ err)
           | Inr srcTable \<Rightarrow>
               (let tableId = GetTableIdFromSrcName (SrcSchema conv) srcTable
                in if SchemaMode conv then
                     record_call (DataStatement (NodeType (StmtInsert stmt)))
                       (conv\<lparr>Stats_Rows :=
                               add_int (Stats_Rows conv) srcTable
                                 (int (case Ins_Lists stmt of None \<Rightarrow> 0 | Some ls \<Rightarrow> length ls))\<rparr>)
                   else
                     (case map_of (SrcSchema conv) tableId of
                        None \<Rightarrow>
                          (record_call
                             (Unexpected (''Can'' @ [CHR 0x27] @ ''t get schemas for table '' @
                                          Table_Name (lookup_Table (SrcSchema conv) tableId))) conv)
                          \<lparr>Stats_BadRows :=
                             add_int (Stats_BadRows conv) srcTable (lookup_int (Stats_Rows conv) srcTable)\<rparr>
                      | Some srcSchema \<Rightarrow>
                          (let byOrder = (case getCols stmt of Inl err2 \<Rightarrow> True | Inr cs \<Rightarrow> False);
                               srcCols = (case getCols stmt of
                                            Inl err2 \<Rightarrow>
                                              map (\<lambda>srcColId. Column_Name (lookup_Column (Table_ColDefs srcSchema) srcColId))
                                                (Table_ColIds srcSchema)
                                          | Inr cs \<Rightarrow> cs);
                               srcColIds = (case getCols stmt of
                                              Inl err2 \<Rightarrow> Table_ColIds srcSchema
                                            | Inr cs \<Rightarrow>
                                                map (GetColIdFromSrcName (Table_ColDefs srcSchema)) cs)
                           in if byOrder \<and> length srcColIds = 0 then
                                (record_call
                                   (Unexpected (''Can'' @ [CHR 0x27] @ ''t get columns for table '' @ srcTable)) conv)
                                \<lparr>Stats_BadRows :=
                                   add_int (Stats_BadRows conv) srcTable (lookup_int (Stats_Rows conv) srcTable)\<rparr>
                              else
                                (case Ins_Lists stmt of
                                   None \<Rightarrow>
                                     logStmtError conv (StmtInsert stmt)
                                       (''can'' @ [CHR 0x27] @ ''t get column values'')
                                 | Some rowLists \<Rightarrow>
                                     (let commonColIds =
                                            IntersectionOfTwoStringSlices
                                              (SpTable_ColIds (lookup_CreateTable (SpSchema conv) tableId))
                                              srcColIds;
                                          colNameIdMap = GetSrcColNameIdMap (lookup_Table (SrcSchema conv) tableId)
                                      in processInsertStmt_rows E conv tableId colNameIdMap commonColIds
                                           srcCols srcSchema rowLists)))))))"

subsection \<open>processStatement\<close>

text \<open>
  processStatement returns the context and whether the statement is an INSERT. A panic
  of a handler ends the run.
\<close>

definition processStatement :: "Ext \<Rightarrow> Conv \<Rightarrow> StmtNode \<Rightarrow> fault + (Conv \<times> bool)" where
  "processStatement E conv stmt =
     (case stmt of
        StmtCreateTable s \<Rightarrow>
          (if SchemaMode conv
           then (case processCreateTable conv s of Inl e \<Rightarrow> Inl e | Inr conv1 \<Rightarrow> Inr (conv1, False))
           else Inr (conv, False))
      | StmtAlterTable s \<Rightarrow>
          (if SchemaMode conv
           then (case processAlterTable conv s of Inl e \<Rightarrow> Inl e | Inr conv1 \<Rightarrow> Inr (conv1, False))
           else Inr (conv, False))
      | StmtSet s \<Rightarrow>
          (if SchemaMode conv then Inr (processSetStmt conv s, False) else Inr (conv, False))
      | StmtInsert s \<Rightarrow> Inr (processInsertStmt E conv s, True)
      | StmtCreateIndex s \<Rightarrow>
          (if SchemaMode conv
           then (case processCreateIndex conv s of Inl e \<Rightarrow> Inl e | Inr conv1 \<Rightarrow> Inr (conv1, False))
           else Inr (conv, False))
      | StmtOther ty \<Rightarrow> Inr (record_call (SkipStatement (NodeType stmt)) conv, False))"

fun processStatements :: "Ext \<Rightarrow> Conv \<Rightarrow> StmtNode list \<Rightarrow> fault + Conv" where
  "processStatements E conv [] = Inr conv"
| "processStatements E conv (stmt # stmts) =
     (case processStatement E conv stmt of
        Inl e \<Rightarrow> Inl e
      | Inr (conv1, isInsert) \<Rightarrow> processStatements E conv1 stmts)"

subsection \<open>Repairing a chunk the parser rejects\<close>

text \<open>
  The loop of handleInsertStatement over the value tuples the pattern finds: each is
  parsed as an INSERT of its own (\<open>insertStmtPrefix + value + ";"\<close>). A tuple the parser
  rejects is skipped with \<open>conv.SkipStatement("InsertStmt")\<close> (in schema mode after
  \<open>conv.Unexpected\<close>); of a parsed tuple the first statement is kept (\<open>newTree[0]\<close>).
\<close>

fun handleInsertStatement_values ::
  "Ext \<Rightarrow> Conv \<Rightarrow> string \<Rightarrow> string list \<Rightarrow> StmtNode list \<Rightarrow> fault + (Conv \<times> StmtNode list)" where
  "handleInsertStatement_values E conv insertStmtPrefix [] stmts = Inr (conv, stmts)"
| "handleInsertStatement_values E conv insertStmtPrefix (v # values) stmts =
     (let chunk = insertStmtPrefix @ v @ '';''
      in case Ext_Parse E chunk of
           Inl err \<Rightarrow>
             handleInsertStatement_values E
               (record_call (SkipStatement ''InsertStmt'')
                  (if SchemaMode conv
                   then record_call
                          (Unexpected
                             (''Either unsupported value is encountered or syntax is incorrect for following statement : ''
                              @ [CHR 0x0A] @ chunk)) conv
                   else conv))
               insertStmtPrefix values stmts
         | Inr newTree \<Rightarrow>
             (case newTree of
                [] \<Rightarrow> Inl (Panic ''index out of range'')
              | t # ts \<Rightarrow> handleInsertStatement_values E conv insertStmtPrefix values (stmts @ [t])))"

definition handleInsertStatement ::
  "Ext \<Rightarrow> Conv \<Rightarrow> string \<Rightarrow> string \<Rightarrow> fault + (Conv \<times> StmtNode list \<times> bool)" where
  "handleInsertStatement E conv chunk insertStmtPrefix =
     (let values = FindAllString valuesRegexp chunk
      in if length values = 0 then Inr (conv, [], False)
         else (case handleInsertStatement_values E conv insertStmtPrefix values [] of
                 Inl e \<Rightarrow> Inl e
               | Inr (conv1, stmts) \<Rightarrow> Inr (conv1, stmts, True)))"

definition handleSpatialDatatype ::
  "Ext \<Rightarrow> Conv \<Rightarrow> string \<Rightarrow> string list \<Rightarrow> Conv \<times> StmtNode list \<times> bool" where
  "handleSpatialDatatype E conv chunk l =
     (if \<not> SchemaMode conv then (conv, [], True)
      else
        (let chunk1 = foldl (\<lambda>c spatialRegexp. ReplaceAll spatialRegexp (\<lambda>m. '' text'') c) chunk spatialRegexps;
             chunk2 = ReplaceAll spatialIndexRegex (\<lambda>m. []) chunk1;
             chunk3 = ReplaceAll spatialSridRegex (\<lambda>m. []) chunk2
         in case Ext_Parse E chunk3 of
              Inl err \<Rightarrow> (conv, [], False)
            | Inr newTree \<Rightarrow> (conv, newTree, True)))"

definition skipUnsupported :: "Conv \<Rightarrow> string \<Rightarrow> Conv \<times> bool" where
  "skipUnsupported conv chunk =
     (let createOrdrop = (if Contains chunk ''drop'' then ''Drop'' else ''Create'')
      in if Contains chunk ''trigger'' then (record_call (SkipStatement (createOrdrop @ ''TrigStmt'')) conv, True)
         else if Contains chunk ''procedure''
              then (record_call (SkipStatement (createOrdrop @ ''ProcedureStmt'')) conv, True)
         else if Contains chunk ''function''
              then (record_call (SkipStatement (createOrdrop @ ''FunctionStmt'')) conv, True)
         else (conv, False))"

fun handleParseError_spatial ::
  "Ext \<Rightarrow> Conv \<Rightarrow> string \<Rightarrow> string \<Rightarrow> string list \<Rightarrow> string list \<Rightarrow> Conv \<times> StmtNode list \<times> bool" where
  "handleParseError_spatial E conv chunk errMsg l [] = (conv, [], False)"
| "handleParseError_spatial E conv chunk errMsg l (spatial # spatials) =
     (if Contains errMsg (''near '' @ [CHR 0x22] @ spatial) then
        handleSpatialDatatype E
          (if SchemaMode conv
           then record_call
                  (Unexpected
                     (''Unsupported datatype '' @ [CHR 0x27] @ spatial @ [CHR 0x27] @
                      '' encountered while parsing following statement at line number '' @
                      show_nat (length l) @ '' : '' @ [CHR 0x0A] @ chunk)) conv
           else conv)
          chunk l
      else handleParseError_spatial E conv chunk errMsg l spatials)"

text \<open>
  handleParseError returns the statements of the repaired chunk and whether the chunk is
  dealt with; \<open>err\<close> is the text of the parser's error.
\<close>

definition handleParseError ::
  "Ext \<Rightarrow> Conv \<Rightarrow> string \<Rightarrow> string \<Rightarrow> string list \<Rightarrow> fault + (Conv \<times> StmtNode list \<times> bool)" where
  "handleParseError E conv chunk err l =
     (let errMsg = Ext_ToLower E err
      in if MatchString unsupportedRegexp errMsg \<or> Contains errMsg ''delimiter'' then
           (if Count (Ext_ToLower E chunk) ''delimiter'' = 1 then Inr (conv, [], False)
            else (case skipUnsupported conv (Ext_ToLower E chunk) of (conv1, ok) \<Rightarrow> Inr (conv1, [], ok)))
         else
           (let insertStmtPrefix = FindString insertRegexp chunk
            in if insertStmtPrefix \<noteq> [] then
                 (case RegexpSplit2 insertRegexp chunk of
                    [before, valuesChunk] \<Rightarrow> handleInsertStatement E conv valuesChunk insertStmtPrefix
                  | _ \<Rightarrow> Inl (Panic ''index out of range''))
               else Inr (handleParseError_spatial E conv chunk errMsg l MysqlSpatialDataTypes)))"

subsection \<open>Reading the dump\<close>

text \<open>
  Modelled from the spec: \<open>internal.Reader\<close>, which is not in the files at hand:
  "readLine() returns the next line, advancing line number and byte offset; exposes an
  end-of-stream flag". The reader holds the bytes not yet read; a line ends with its
  newline, and the read that reaches the end of the stream before a newline returns what
  is left and sets \<open>EOF\<close>.
\<close>

record Reader =
  Reader_input :: string
  LineNumber :: nat
  Offset :: nat
  EOF :: bool

fun read_bytes :: "string \<Rightarrow> string \<times> string \<times> bool" where
  "read_bytes [] = ([], [], True)"
| "read_bytes (c # cs) =
     (if c = CHR 0x0A then ([c], cs, False)
      else (case read_bytes cs of (b, rest, eof) \<Rightarrow> (c # b, rest, eof)))"

definition ReadLine :: "Reader \<Rightarrow> string \<times> Reader" where
  "ReadLine r =
     (case read_bytes (Reader_input r) of
        (b, rest, eof) \<Rightarrow>
          (b, r\<lparr>Reader_input := rest, LineNumber := Suc (LineNumber r),
                Offset := Offset r + length b, EOF := (EOF r \<or> eof)\<rparr>))"

text \<open>
  One round of the loop of readAndParseChunk: it returns (\<open>Done\<close>), with the bytes read
  and the statements or with the error, or goes round again (\<open>Again\<close>) with the lines
  read so far.
\<close>

datatype chunk_step =
    Done "fault + (Conv \<times> Reader \<times> string \<times> StmtNode list)"
  | Again Conv Reader "string list"

definition readAndParseChunk_step :: "Ext \<Rightarrow> Conv \<Rightarrow> Reader \<Rightarrow> string list \<Rightarrow> chunk_step" where
  "readAndParseChunk_step E conv r l0 =
     (case ReadLine r of
        (b, r1) \<Rightarrow>
          (let l = l0 @ [b]
           in if Contains b '';'' \<or> EOF r1 then
                (let chunk = concat l
                 in if MatchAnchored regexExp chunk then Done (Inr (conv, r1, chunk, []))
                    else
                      (case Ext_Parse E chunk of
                         Inr tree \<Rightarrow> Done (Inr (conv, r1, chunk, tree))
                       | Inl err \<Rightarrow>
                           (case handleParseError E conv chunk err l of
                              Inl e \<Rightarrow> Done (Inl e)
                            | Inr (conv1, newTree, ok) \<Rightarrow>
                                if ok then Done (Inr (conv1, r1, chunk, newTree))
                                else if EOF r1
                                     then Done (Inl (Error (''Error parsing last '' @ show_nat (length l) @
                                                            '' line(s) of input'')))
                                     else Again (conv1\<lparr>Stats_Reparsed := Stats_Reparsed conv1 + 1\<rparr>) r1 l)))
              else if EOF r1
                   then Done (Inl (Error (''Error parsing last '' @ show_nat (length l) @ '' line(s) of input'')))
                   else Again conv r1 l))"

lemma read_bytes_shorter:
  "read_bytes s = (b, rest, False) \<Longrightarrow> length rest < length s"
  by (induction s arbitrary: b rest) (auto split: if_splits prod.splits)

lemma ReadLine_shorter:
  "ReadLine r = (b, r1) \<Longrightarrow> \<not> EOF r1 \<Longrightarrow> length (Reader_input r1) < length (Reader_input r)"
  by (auto simp: ReadLine_def split: prod.splits dest: read_bytes_shorter)

lemma readAndParseChunk_step_Again:
  "readAndParseChunk_step E conv r l0 = Again conv1 r1 l1 \<Longrightarrow>
   length (Reader_input r1) < length (Reader_input r)"
  by (auto simp: readAndParseChunk_step_def Let_def
           split: prod.splits if_splits sum.splits dest: ReadLine_shorter)

function readAndParseChunk_loop ::
  "Ext \<Rightarrow> Conv \<Rightarrow> Reader \<Rightarrow> string list \<Rightarrow> fault + (Conv \<times> Reader \<times> string \<times> StmtNode list)" where
  "readAndParseChunk_loop E conv r l =
     (case readAndParseChunk_step E conv r l of
        Done res \<Rightarrow> res
      | Again conv1 r1 l1 \<Rightarrow> readAndParseChunk_loop E conv1 r1 l1)"
  by pat_completeness auto
termination
  by (relation "measure (\<lambda>(E, conv, r, l). length (Reader_input r))")
     (auto dest: readAndParseChunk_step_Again)

declare readAndParseChunk_loop.simps [simp del]

definition readAndParseChunk ::
  "Ext \<Rightarrow> Conv \<Rightarrow> Reader \<Rightarrow> fault + (Conv \<times> Reader \<times> string \<times> StmtNode list)" where
  "readAndParseChunk E conv r = readAndParseChunk_loop E conv r []"

lemma readAndParseChunk_loop_shorter:
  "readAndParseChunk_loop E conv r l = Inr (conv1, r1, b, stmts) \<Longrightarrow> \<not> EOF r1 \<Longrightarrow>
   length (Reader_input r1) < length (Reader_input r)"
proof (induction E conv r l rule: readAndParseChunk_loop.induct)
  case (1 E conv r l)
  show ?case
  proof (cases "readAndParseChunk_step E conv r l")
    case (Done res)
    with "1.prems" have res: "res = Inr (conv1, r1, b, stmts)"
      by (simp add: readAndParseChunk_loop.simps)
    obtain b0 r0 where rl: "ReadLine r = (b0, r0)"
      by (cases "ReadLine r")
    from Done res rl have "r1 = r0"
      by (auto simp: readAndParseChunk_step_def Let_def split: if_splits sum.splits)
    with rl "1.prems"(2) show ?thesis
      by (auto dest: ReadLine_shorter)
  next
    case (Again conv2 r2 l2)
    with "1.prems" have "readAndParseChunk_loop E conv2 r2 l2 = Inr (conv1, r1, b, stmts)"
      by (simp add: readAndParseChunk_loop.simps)
    with "1.IH"[OF Again] "1.prems"(2)
    have "length (Reader_input r1) < length (Reader_input r2)"
      by simp
    with readAndParseChunk_step_Again[OF Again] show ?thesis
      by simp
  qed
qed

text \<open>
  The loop of processMySQLDump: a chunk is read and parsed, its statements are processed,
  and the loop ends at the end of the stream. The error of readAndParseChunk is returned
  at once.
\<close>

function processMySQLDump_loop :: "Ext \<Rightarrow> Conv \<Rightarrow> Reader \<Rightarrow> fault + (Conv \<times> Reader)" where
  "processMySQLDump_loop E conv r =
     (case readAndParseChunk E conv r of
        Inl err \<Rightarrow> Inl err
      | Inr (conv1, r1, b, stmts) \<Rightarrow>
          (case processStatements E conv1 stmts of
             Inl e \<Rightarrow> Inl e
           | Inr conv2 \<Rightarrow> if EOF r1 then Inr (conv2, r1) else processMySQLDump_loop E conv2 r1))"
  by pat_completeness auto
termination
  by (relation "measure (\<lambda>(E, conv, r). length (Reader_input r))")
     (auto simp: readAndParseChunk_def dest: readAndParseChunk_loop_shorter)

declare processMySQLDump_loop.simps [simp del]

definition processMySQLDump :: "Ext \<Rightarrow> Conv \<Rightarrow> Reader \<Rightarrow> fault + (Conv \<times> Reader)" where
  "processMySQLDump E conv r =
     (case processMySQLDump_loop E conv r of
        Inl err \<Rightarrow> Inl err
      | Inr (conv1, r1) \<Rightarrow> Inr (conv1\<lparr>SrcSchema := Ext_ResolveForeignKeyIds E (SrcSchema conv1)\<rparr>, r1))"

text \<open>
  The rounds of the loop of processMySQLDump: \<open>chunks_done E conv r conv' r'\<close> says that
  the loop, started with \<open>conv\<close> and \<open>r\<close>, comes to the head of a round with \<open>conv'\<close>
  and \<open>r'\<close>: every chunk before was read and parsed without an error, its statements
  were processed, and the stream had not ended.
\<close>

inductive chunks_done :: "Ext \<Rightarrow> Conv \<Rightarrow> Reader \<Rightarrow> Conv \<Rightarrow> Reader \<Rightarrow> bool"
  for E :: Ext and conv :: Conv and r :: Reader where
  start: "chunks_done E conv r conv r"
| round: "chunks_done E conv r conv1 r1 \<Longrightarrow>
          readAndParseChunk E conv1 r1 = Inr (conv2, r2, b, stmts) \<Longrightarrow>
          processStatements E conv2 stmts = Inr conv3 \<Longrightarrow> \<not> EOF r2 \<Longrightarrow>
          chunks_done E conv r conv3 r2"

text \<open>A context before any statement is processed, in the given mode.\<close>

definition conv_init :: "conv_mode \<Rightarrow> Conv" where
  "conv_init m =
     \<lparr>Conv_mode = m, SrcSchema = [], SpSchema = [], Stats_Rows = [], Stats_BadRows = [],
      Stats_Reparsed = 0, TimezoneOffset = [], Conv_calls = [], Cntr = 0\<rparr>"

definition reader_init :: "string \<Rightarrow> Reader" where
  "reader_init s = \<lparr>Reader_input = s, LineNumber = 0, Offset = 0, EOF = False\<rparr>"

text \<open>
  The newlines of an input. Reading an input to its end takes one read more than it has
  newlines: one for each line, and the read that finds the end of the stream.
\<close>

definition count_nl :: "string \<Rightarrow> nat" where
  "count_nl s = length (filter (\<lambda>c. c = CHR 0x0A) s)"

text \<open>
  The lines of an input: every newline ends one, and what follows the last newline is a
  line when it is not empty.
\<close>

definition count_lines :: "string \<Rightarrow> nat" where
  "count_lines s = count_nl s + (if s = [] \<or> last s = CHR 0x0A then 0 else 1)"

section \<open>The conversion to the target schema\<close>

text \<open>
  Modelled from the spec: the Schema-to-Target Converter (\<open>SchemaToSpannerDDL\<close> of
  sources/common/toddl.go and the synthesis of the surrogate key), which are not in the
  files at hand; toddl_test.go and infoschema_test.go hold tests of them. Of "per table,
  single pass: ... remap primary key ...; if no primary key exists, synthesize a hidden
  surrogate column as the sole primary key", and of "source and target column-id spaces
  are identical per table except for an added surrogate column". The type mapping, the
  foreign keys, the indexes, the interleaving and the sequences are left out. The
  surrogate column gets a new column id and is the last column of the table; its key has
  \<open>Order\<close> 1, as the schema expected by TestProcessData_MultiCol has.
\<close>

definition cvtPrimaryKeys :: "Key list \<Rightarrow> IndexKey list" where
  "cvtPrimaryKeys srcKeys =
     map (\<lambda>k. \<lparr>IK_ColId = Key_ColId k, IK_Desc = Key_Desc k, IK_Order = Key_Order k\<rparr>) srcKeys"

definition SchemaToSpannerDDLHelper :: "Conv \<Rightarrow> Table \<Rightarrow> Conv" where
  "SchemaToSpannerDDLHelper conv srcTable =
     (let primaryKeys = cvtPrimaryKeys (Table_PrimaryKeys srcTable)
      in if primaryKeys = [] then
           (let (conv1, synthId) = GenerateColumnId conv
            in conv1\<lparr>SpSchema :=
                       AList.update (Table_Id srcTable)
                         \<lparr>SpTable_Name = Table_Name srcTable,
                          SpTable_ColIds = Table_ColIds srcTable @ [synthId],
                          SpTable_PrimaryKeys = [\<lparr>IK_ColId = synthId, IK_Desc = False, IK_Order = 1\<rparr>]\<rparr>
                         (SpSchema conv1)\<rparr>)
         else conv\<lparr>SpSchema :=
                     AList.update (Table_Id srcTable)
                       \<lparr>SpTable_Name = Table_Name srcTable,
                        SpTable_ColIds = Table_ColIds srcTable,
                        SpTable_PrimaryKeys = primaryKeys\<rparr>
                       (SpSchema conv)\<rparr>)"

definition SchemaToSpannerDDL :: "Conv \<Rightarrow> Conv" where
  "SchemaToSpannerDDL conv = foldl SchemaToSpannerDDLHelper conv (map snd (SrcSchema conv))"

section \<open>The batched writer\<close>


record row =
  row_table :: string
  row_cols :: "string list"
  row_vals :: "string list"







section \<open>Example statements\<close>

text \<open>
  \<open>CREATE TABLE t (id INT, name VARCHAR(10))\<close>, the same with \<open>id INT PRIMARY KEY\<close>,
  and the table-level constraint \<open>PRIMARY KEY (name)\<close>, as the parser returns them.
\<close>

definition ex_col_id :: ColumnDef where
  "ex_col_id =
     \<lparr>ColDef_Name = Some \<lparr>CN_OrigColName = ''id'', CN_String = ''id''\<rparr>, ColDef_Tp = Some \<lparr>FT_String = ''int(11)'', FT_Elems = []\<rparr>,
      ColDef_Options = []\<rparr>"

definition ex_col_id_pk :: ColumnDef where
  "ex_col_id_pk =
     ex_col_id\<lparr>ColDef_Options :=
       [\<lparr>Option_Tp = ColumnOptionPrimaryKey, Option_Expr = None, Option_Refer = None\<rparr>]\<rparr>"

definition ex_col_name :: ColumnDef where
  "ex_col_name =
     \<lparr>ColDef_Name = Some \<lparr>CN_OrigColName = ''name'', CN_String = ''name''\<rparr>, ColDef_Tp = Some \<lparr>FT_String = ''varchar(10)'', FT_Elems = []\<rparr>,
      ColDef_Options = []\<rparr>"

definition ex_pk_name :: Constraint where
  "ex_pk_name =
     \<lparr>Constraint_Tp = ConstraintPrimaryKey, Constraint_Name = [],
      Constraint_Keys = [\<lparr>IPS_Column = Some ''name'', IPS_Desc = False\<rparr>],
      Constraint_Refer = None, Constraint_Expr = []\<rparr>"

definition ex_create_t :: CreateTableStmt where
  "ex_create_t =
     \<lparr>CT_Table = Some \<lparr>TN_Schema = [], TN_Name = ''t''\<rparr>, CT_Cols = [ex_col_id, ex_col_name],
      CT_Constraints = []\<rparr>"

definition ex_create_t_pk :: CreateTableStmt where
  "ex_create_t_pk = ex_create_t\<lparr>CT_Cols := [ex_col_id_pk, ex_col_name]\<rparr>"

definition ex_create_t_two_pk :: CreateTableStmt where
  "ex_create_t_two_pk = ex_create_t_pk\<lparr>CT_Constraints := [ex_pk_name]\<rparr>"

text \<open>
  The statements \<open>INSERT INTO t VALUES (1,'a')\<close>, \<open>INSERT INTO t VALUES (1,'a'),(2,'b')\<close>
  and \<open>INSERT INTO t (name, id) VALUES ('a', 1)\<close>.
\<close>

definition ex_row_1a :: "ExprNode list" where
  "ex_row_1a = [ValueExpr (VInt64 1), ValueExpr (VOther ''a'' ''string'')]"

definition ex_row_2b :: "ExprNode list" where
  "ex_row_2b = [ValueExpr (VInt64 2), ValueExpr (VOther ''b'' ''string'')]"

definition ex_table_refs :: TableRefsClause where
  "ex_table_refs = \<lparr>TableRefs = Some \<lparr>Join_Left = Some (TableSource_TableName \<lparr>TN_Schema = [], TN_Name = ''t''\<rparr>)\<rparr>\<rparr>"

definition ex_insert :: "string list option \<Rightarrow> ExprNode list list \<Rightarrow> InsertStmt" where
  "ex_insert columns rows = \<lparr>Ins_Table = Some ex_table_refs, Ins_Columns = columns, Ins_Lists = Some rows\<rparr>"

text \<open>The context after a statement in schema mode, from the initial context.\<close>

definition after_schema_stmt :: "Ext \<Rightarrow> StmtNode \<Rightarrow> Conv" where
  "after_schema_stmt E stmt =
     (case processStatement E (conv_init schemaOnly) stmt of
        Inr (conv, isInsert) \<Rightarrow> conv
      | Inl e \<Rightarrow> conv_init schemaOnly)"

text \<open>
  Stand-ins for what is given from outside, for the examples. The parser accepts the empty
  chunk (no statement), the CREATE TABLE statement of the example and INSERT statements
  into \<open>t\<close> with the tuples \<open>(1,'a')\<close> and \<open>(2,'b')\<close>; every other chunk is a syntax
  error, as is a tuple with an empty field, \<open>(2,,'b')\<close>. The texts of the examples
  are ASCII, where \<open>strings.ToLower\<close> is \<open>ToLowerASCII\<close>. The value preparation keeps
  the values of the common columns. Foreign keys are not resolved.
\<close>

definition ex_Parse :: "string \<Rightarrow> string + StmtNode list" where
  "ex_Parse chunk =
     (if chunk = [] then Inr []
      else if chunk = ''CREATE TABLE t (id INT, name VARCHAR(10));'' @ [CHR 0x0A]
      then Inr [StmtCreateTable ex_create_t]
      else if chunk = ''INSERT INTO t VALUES (1,'a');''
      then Inr [StmtInsert (ex_insert None [ex_row_1a])]
      else if chunk = ''INSERT INTO t VALUES (2,'b');''
      then Inr [StmtInsert (ex_insert None [ex_row_2b])]
      else if chunk = ''INSERT INTO t VALUES (1,'a'),(2,'b');'' @ [CHR 0x0A]
      then Inr [StmtInsert (ex_insert None [ex_row_1a, ex_row_2b])]
      else Inl ''syntax error'')"

definition ex_PrepareValues ::
  "string \<Rightarrow> (string \<times> string) list \<Rightarrow> string list \<Rightarrow> string list \<Rightarrow> string list \<Rightarrow> string + string list" where
  "ex_PrepareValues tableId colNameIdMap commonColIds srcCols values =
     (if length srcCols \<noteq> length values then Inl ''srcCols and vals differ in length''
      else Inr (map snd (filter (\<lambda>(c, v). lookup_str colNameIdMap c \<in> set commonColIds) (zip srcCols values))))"

definition ex_Ext :: Ext where
  "ex_Ext =
     \<lparr>Ext_Parse = ex_Parse,
      Ext_ToLower = ToLowerASCII,
      Ext_PrepareValues = ex_PrepareValues,
      Ext_ResolveForeignKeyIds = (\<lambda>srcSchema. srcSchema)\<rparr>"

definition ex_conv_t :: Conv where
  "ex_conv_t = after_schema_stmt ex_Ext (StmtCreateTable ex_create_t)"

definition ex_conv_t_pk :: Conv where
  "ex_conv_t_pk = after_schema_stmt ex_Ext (StmtCreateTable ex_create_t_pk)"



definition ex_create_index :: CreateIndexStmt where
  "ex_create_index =
     \<lparr>CI_Table = Some \<lparr>TN_Schema = [], TN_Name = ''t''\<rparr>, CI_IndexName = ''idx'',
      CI_KeyType = IndexKeyTypeNone,
      CI_IndexPartSpecifications =
        [\<lparr>IPS_Column = Some ''name'', IPS_Desc = True\<rparr>, \<lparr>IPS_Column = Some ''id'', IPS_Desc = False\<rparr>]\<rparr>"

text \<open>
  The source table that \<open>CREATE TABLE t (id INT, name VARCHAR(10))\<close> gives, and a context
  in data mode for it: in the target table the column \<open>name\<close> (\<open>c3\<close>) has been dropped
  and a key column \<open>c4\<close> added.
\<close>

definition ex_table_t :: Table where
  "ex_table_t =
     \<lparr>Table_Id = ''t1'', Table_Name = ''t'', Table_ColIds = [''c2'', ''c3''],
      Table_ColNameIdMap = [(''id'', ''c2''), (''name'', ''c3'')],
      Table_ColDefs =
        [(''c2'', zero_Column\<lparr>Column_Id := ''c2'', Column_Name := ''id'',
                    Column_Type := \<lparr>Type_Name = ''int'', Type_Mods = [11], Type_ArrayBounds = []\<rparr>\<rparr>),
         (''c3'', zero_Column\<lparr>Column_Id := ''c3'', Column_Name := ''name'',
                    Column_Type := \<lparr>Type_Name = ''varchar'', Type_Mods = [10], Type_ArrayBounds = []\<rparr>\<rparr>)],
      Table_PrimaryKeys = [], Table_ForeignKeys = [], Table_Indexes = [], Table_CheckConstraints = []\<rparr>"

definition ex_conv_t_data :: Conv where
  "ex_conv_t_data =
     \<lparr>Conv_mode = dataOnly, SrcSchema = [(''t1'', ex_table_t)],
      SpSchema = [(''t1'', \<lparr>SpTable_Name = ''t'', SpTable_ColIds = [''c2'', ''c4''],
                          SpTable_PrimaryKeys = [\<lparr>IK_ColId = ''c4'', IK_Desc = False, IK_Order = 1\<rparr>]\<rparr>)],
      Stats_Rows = [(''t'', 2)], Stats_BadRows = [], Stats_Reparsed = 0, TimezoneOffset = [],
      Conv_calls = [], Cntr = 4\<rparr>"


definition ex_dump_trailing :: string where
  "ex_dump_trailing =
     ''CREATE TABLE t (id INT, name VARCHAR(10));'' @ [CHR 0x0A] @ ''SELECT ';'' @ [CHR 0x0A] @
     ''x'' @ [CHR 0x0A]"


section \<open>Properties of the string and pattern functions\<close>

lemma Contains_single: "Contains s [c] = (c \<in> set s)"
  by (induction s) (auto simp: HasPrefix_def)

lemma Split_nonempty: "Split s sep \<noteq> []"
  by (induction s) (auto split: list.splits)

lemma Split_append_sep:
  "sep \<notin> set name \<Longrightarrow> Split (name @ sep # rest) sep = name # Split rest sep"
  by (induction name) (auto split: list.splits)

lemma hd_Split_open:
  "CHR ''('' \<notin> set name \<Longrightarrow> hd (Split (name @ CHR ''('' # rest) (CHR ''('')) = name"
  by (simp add: Split_append_sep)

lemma rmatch_lazy_dot_step:
  "c \<noteq> CHR 0x0A \<Longrightarrow>
   rmatch (RStarLazy (RChar CDot)) (c # s) = (c # s) # rmatch (RStarLazy (RChar CDot)) s"
  by simp

lemma rmatch_lazy_dot_then_close:
  "CHR '')'' \<notin> set body \<Longrightarrow> CHR 0x0A \<notin> set body \<Longrightarrow>
   \<exists>more. rmatch (RSeq (RStarLazy (RChar CDot)) (RChar (CChar CHR '')''))) (body @ CHR '')'' # rest)
          = rest # more"
proof (induction body)
  case Nil
  then show ?case by simp
next
  case (Cons c body)
  then have c: "c \<noteq> CHR 0x0A" "c \<noteq> CHR '')''" by auto
  obtain more where
    "rmatch (RSeq (RStarLazy (RChar CDot)) (RChar (CChar CHR '')''))) (body @ CHR '')'' # rest) = rest # more"
    using Cons by auto
  with c show ?case by (simp del: rmatch.simps(6) add: rmatch_lazy_dot_step)
qed

lemma rmatch_valuesRegexp_open:
  "CHR '')'' \<notin> set body \<Longrightarrow> CHR 0x0A \<notin> set body \<Longrightarrow>
   \<exists>more. rmatch valuesRegexp (CHR ''('' # body @ CHR '')'' # rest) = rest # more"
  using rmatch_lazy_dot_then_close[of body rest]
  by (auto simp: valuesRegexp_def simp del: rmatch.simps(6))

lemma rmatch_valuesRegexp_other:
  "c \<noteq> CHR ''('' \<Longrightarrow> rmatch valuesRegexp (c # s) = []"
  by (simp add: valuesRegexp_def)

lemma rx_find_valuesRegexp:
  assumes "CHR ''('' \<notin> set name" "CHR '')'' \<notin> set body" "CHR 0x0A \<notin> set body"
  shows "rx_find valuesRegexp (name @ CHR ''('' # body @ CHR '')'' # rest)
         = Some (name, CHR ''('' # body @ '')'', rest)"
  using assms(1)
proof (induction name)
  case Nil
  obtain more where "rmatch valuesRegexp (CHR ''('' # body @ CHR '')'' # rest) = rest # more"
    using rmatch_valuesRegexp_open[OF assms(2,3)] by blast
  then show ?case by (simp add: rx_find.simps)
next
  case (Cons c name)
  then have c: "c \<noteq> CHR ''(''" by auto
  have "rmatch valuesRegexp ((c # name) @ CHR ''('' # body @ CHR '')'' # rest) = []"
    using rmatch_valuesRegexp_other[OF c] by simp
  with Cons show ?case by (simp add: rx_find.simps[of _ "c # _"])
qed

lemma FindString_valuesRegexp:
  "CHR ''('' \<notin> set name \<Longrightarrow> CHR '')'' \<notin> set body \<Longrightarrow> CHR 0x0A \<notin> set body \<Longrightarrow>
   FindString valuesRegexp (name @ CHR ''('' # body @ CHR '')'' # rest) = CHR ''('' # body @ '')''"
  by (simp add: FindString_def rx_find_valuesRegexp)








lemma rmatch_lazy_dot_hd: "\<exists>more. rmatch (RStarLazy (RChar CDot)) s = s # more"
  by (subst rmatch.simps(6)) simp

lemma rmatch_RLit: "rmatch (RLit lit) (lit @ s) = [s]"
  by (induction lit) simp_all

lemma rmatch_RSeq_RLit: "rmatch (RSeq (RLit lit) r) (lit @ s) = rmatch r s"
  by (simp only: rmatch.simps(3) rmatch_RLit list.map concat.simps append_Nil2)

lemma rmatch_RSeq_space:
  "cclass_match CSpace w \<Longrightarrow> rmatch (RSeq (RChar CSpace) r) (w # s) = rmatch r s"
  by (simp only: rmatch.simps(2,3) list.case if_True list.map concat.simps append_Nil2)

lemma rmatch_RChar_space: "cclass_match CSpace w \<Longrightarrow> rmatch (RChar CSpace) (w # s) = [s]"
  by (simp only: rmatch.simps(2) list.case if_True)

lemma rmatch_RSeq_space_other:
  "\<not> cclass_match CSpace c \<Longrightarrow> rmatch (RSeq (RChar CSpace) r) (c # s) = []"
  by (simp only: rmatch.simps(2,3) list.case if_False list.map concat.simps)

lemma rmatch_values_keyword_then:
  assumes "list_all (\<lambda>c. \<not> cclass_match CSpace c) tbl"
    and "cclass_match CSpace w3" and "cclass_match CSpace w4"
  shows "\<exists>more. rmatch (RSeq (RStarLazy (RChar CDot)) (RSeq (RChar CSpace) (RSeq (RLit ''VALUES'') (RChar CSpace))))
                  (tbl @ w3 # ''VALUES'' @ w4 # rest) = rest # more"
  using assms(1)
proof (induction tbl)
  case Nil
  define v where "v = w3 # ''VALUES'' @ w4 # rest"
  obtain more where m: "rmatch (RStarLazy (RChar CDot)) v = v # more"
    using rmatch_lazy_dot_hd by blast
  have k: "rmatch (RSeq (RChar CSpace) (RSeq (RLit ''VALUES'') (RChar CSpace))) v = [rest]"
    unfolding v_def
    by (simp only: rmatch_RSeq_space[OF assms(2)] rmatch_RSeq_RLit rmatch_RChar_space[OF assms(3)])
  have "rmatch (RSeq (RStarLazy (RChar CDot)) (RSeq (RChar CSpace) (RSeq (RLit ''VALUES'') (RChar CSpace)))) v
        = rest # concat (map (rmatch (RSeq (RChar CSpace) (RSeq (RLit ''VALUES'') (RChar CSpace)))) more)"
    by (simp only: rmatch.simps(3)[of "RStarLazy (RChar CDot)"] m list.map concat.simps k append_Cons append_Nil)
  then show ?case unfolding v_def by (simp only: append_Nil) blast
next
  case (Cons c tbl)
  then have c: "\<not> cclass_match CSpace c" and rest: "list_all (\<lambda>c. \<not> cclass_match CSpace c) tbl"
    by simp_all
  from c have nl: "c \<noteq> CHR 0x0A" by auto
  define s where "s = tbl @ w3 # ''VALUES'' @ w4 # rest"
  obtain more where ih: "rmatch (RSeq (RStarLazy (RChar CDot)) (RSeq (RChar CSpace) (RSeq (RLit ''VALUES'') (RChar CSpace)))) s
                        = rest # more"
    using Cons.IH[OF rest] unfolding s_def by blast
  have st: "rmatch (RStarLazy (RChar CDot)) (c # s) = (c # s) # rmatch (RStarLazy (RChar CDot)) s"
    using nl by (subst rmatch.simps(6)) simp
  have "rmatch (RSeq (RStarLazy (RChar CDot)) (RSeq (RChar CSpace) (RSeq (RLit ''VALUES'') (RChar CSpace)))) (c # s)
        = rmatch (RSeq (RStarLazy (RChar CDot)) (RSeq (RChar CSpace) (RSeq (RLit ''VALUES'') (RChar CSpace)))) s"
    by (simp only: rmatch.simps(3)[of "RStarLazy (RChar CDot)"] st list.map concat.simps
                   rmatch_RSeq_space_other[OF c] append_Nil)
  with ih have "rmatch (RSeq (RStarLazy (RChar CDot)) (RSeq (RChar CSpace) (RSeq (RLit ''VALUES'') (RChar CSpace)))) (c # s)
        = rest # more" by simp
  then show ?case unfolding s_def by (simp only: append_Cons) blast
qed

lemma rx_find_insertRegexp:
  assumes "list_all (\<lambda>c. \<not> cclass_match CSpace c) tbl"
    and "cclass_match CSpace w1" and "cclass_match CSpace w2"
    and "cclass_match CSpace w3" and "cclass_match CSpace w4"
  shows "rx_find insertRegexp (''INSERT'' @ w1 # ''INTO'' @ w2 # tbl @ w3 # ''VALUES'' @ w4 # rest)
         = Some ([], ''INSERT'' @ w1 # ''INTO'' @ w2 # tbl @ w3 # ''VALUES'' @ [w4], rest)"
proof -
  define s where "s = tbl @ w3 # ''VALUES'' @ w4 # rest"
  obtain more where m: "rmatch (RSeq (RStarLazy (RChar CDot)) (RSeq (RChar CSpace) (RSeq (RLit ''VALUES'') (RChar CSpace)))) s
                        = rest # more"
    using rmatch_values_keyword_then[OF assms(1,4,5)] unfolding s_def by blast
  have r: "rmatch insertRegexp (''INSERT'' @ w1 # ''INTO'' @ w2 # s) = rest # more"
    unfolding insertRegexp_def
    by (simp only: RSeqs.simps rmatch_RSeq_RLit rmatch_RSeq_space[OF assms(2)] rmatch_RSeq_space[OF assms(3)] m)
  have l: "length (''INSERT'' @ w1 # ''INTO'' @ w2 # s) - length rest = length (''INSERT'' @ w1 # ''INTO'' @ w2 # tbl @ w3 # ''VALUES'' @ [w4])"
    by (simp add: s_def)
  have "rx_find insertRegexp (''INSERT'' @ w1 # ''INTO'' @ w2 # s)
        = Some ([], take (length (''INSERT'' @ w1 # ''INTO'' @ w2 # s) - length rest) (''INSERT'' @ w1 # ''INTO'' @ w2 # s), rest)"
    by (subst rx_find.simps) (simp only: r list.case)
  also have "take (length (''INSERT'' @ w1 # ''INTO'' @ w2 # s) - length rest) (''INSERT'' @ w1 # ''INTO'' @ w2 # s)
             = ''INSERT'' @ w1 # ''INTO'' @ w2 # tbl @ w3 # ''VALUES'' @ [w4]"
    unfolding l by (simp add: s_def)
  finally show ?thesis unfolding s_def .
qed

section \<open>The type sub-parser\<close>

text \<open>
  C8. For a column type written \<open>name(...)\<close>, getTypeModsAndID returns the text before
  the parenthesis as the type id, with the integers between the parentheses as
  modifiers: when \<open>name\<close> is one word and the text between the parentheses (up to the
  first closing one, on one line) is a comma-separated list that \<open>strconv.ParseInt\<close>
  reads as \<open>mods\<close>, the result is \<open>(name, mods)\<close>, whatever follows the closing
  parenthesis. For \<open>set\<close> and \<open>enum\<close> the parenthesized members are not read as a
  length: the modifier list is empty, and getArrayBounds makes the number of members the
  array bound of a \<open>set\<close> (and gives no bound for an \<open>enum\<close>). The context is unchanged.
\<close>

theorem getTypeModsAndID_parenthesized:
  "CHR ''('' \<notin> set name \<Longrightarrow>
   (name = ''set'' \<or> name = ''enum'' \<longrightarrow>
      getTypeModsAndID conv (name @ ''('' @ rest) = Inr (conv, name, [])) \<and>
   getArrayBounds (''set'' @ ''('' @ rest) elems = [int (length elems)] \<and>
   getArrayBounds (''enum'' @ ''('' @ rest) elems = [] \<and>
   (name \<noteq> ''set'' \<and> name \<noteq> ''enum'' \<and> CHR '' '' \<notin> set name \<and>
    CHR '')'' \<notin> set body \<and> CHR 0x0A \<notin> set body \<and>
    parseMods (Split body (CHR '','')) = Some mods \<longrightarrow>
      getTypeModsAndID conv (name @ ''('' @ body @ '')'' @ rest) = Inr (conv, name, mods))"
proof (intro conjI impI)
  assume n: "CHR ''('' \<notin> set name"
  have c: "Contains (name @ ''('' @ r) ''(''" for r
    by (simp add: Contains_single)
  show "getTypeModsAndID conv (name @ ''('' @ rest) = Inr (conv, name, [])"
    if "name = ''set'' \<or> name = ''enum''"
    using that n c[of rest] hd_Split_open[OF n, of rest]
    by (auto simp: getTypeModsAndID_def Let_def)
  show "getArrayBounds (''set'' @ ''('' @ rest) elems = [int (length elems)]"
    by (simp add: getArrayBounds_def HasPrefix_def)
  show "getArrayBounds (''enum'' @ ''('' @ rest) elems = []"
    by (simp add: getArrayBounds_def HasPrefix_def)
  assume h: "name \<noteq> ''set'' \<and> name \<noteq> ''enum'' \<and> CHR '' '' \<notin> set name \<and>
    CHR '')'' \<notin> set body \<and> CHR 0x0A \<notin> set body \<and>
    parseMods (Split body (CHR '','')) = Some mods"
  have f: "FindString valuesRegexp (name @ ''('' @ body @ '')'' @ rest) = CHR ''('' # body @ '')''"
    using FindString_valuesRegexp[OF n, of body rest] h by simp
  have s: "hd (Split (name @ ''('' @ body @ '')'' @ rest) (CHR ''('')) = name"
    using hd_Split_open[OF n, of "body @ '')'' @ rest"] by simp
  have sp: "\<not> Contains name '' ''"
    using h by (simp add: Contains_single)
  show "getTypeModsAndID conv (name @ ''('' @ body @ '')'' @ rest) = Inr (conv, name, mods)"
    unfolding getTypeModsAndID_def Let_def
    using c[of "body @ '')'' @ rest"] f s sp h by simp
qed

theorem getTypeModsAndID_parenthesized_witness:
  "getTypeModsAndID (conv_init schemaOnly) ''decimal(10,2)'' = Inr (conv_init schemaOnly, ''decimal'', [10, 2]) \<and>
   getTypeModsAndID (conv_init schemaOnly) ''set('a','b')'' = Inr (conv_init schemaOnly, ''set'', []) \<and>
   getArrayBounds ''set('a','b')'' [''a'', ''b''] = [2] \<and>
   getTypeModsAndID (conv_init schemaOnly) ''enum('a','b')'' = Inr (conv_init schemaOnly, ''enum'', []) \<and>
   getArrayBounds ''enum('a','b')'' [''a'', ''b''] = []"
proof -
  have p: "parseMods (Split ''10,2'' (CHR '','')) = Some [10, 2]"
    by (simp add: ParseInt_def is_digit_def digits_val_def digit_val_def Let_def)
  show ?thesis
    using getTypeModsAndID_parenthesized[of "''decimal''" "conv_init schemaOnly" "[]" "[]" "''10,2''" "[10, 2]"]
          getTypeModsAndID_parenthesized[of "''set''" "conv_init schemaOnly"
            "CHR 0x27 # ''a'' @ CHR 0x27 # '','' @ CHR 0x27 # ''b'' @ CHR 0x27 # '')''" "[''a'', ''b'']" "[]" "[]"]
          getTypeModsAndID_parenthesized[of "''enum''" "conv_init schemaOnly"
            "CHR 0x27 # ''a'' @ CHR 0x27 # '','' @ CHR 0x27 # ''b'' @ CHR 0x27 # '')''" "[''a'', ''b'']" "[]" "[]"]
          p
    by simp
qed

section \<open>Statements in data mode\<close>

text \<open>
  C10. In data mode processStatement always returns, and for a statement that is not an
  INSERT the source schema of the context is unchanged; for CREATE TABLE, ALTER TABLE, SET
  and CREATE INDEX the whole context is unchanged (their handlers run in schema mode
  only). In either mode, the boolean processStatement returns is true exactly for an
  INSERT statement.
\<close>

theorem processStatement_data_mode_frame:
  "\<not> SchemaMode conv \<Longrightarrow>
   (\<exists>conv'. processStatement E conv stmt = Inr (conv', (\<exists>s. stmt = StmtInsert s)) \<and>
      ((\<nexists>s. stmt = StmtInsert s) \<longrightarrow> SrcSchema conv' = SrcSchema conv) \<and>
      ((\<exists>s. stmt = StmtCreateTable s) \<or> (\<exists>s. stmt = StmtAlterTable s) \<or> (\<exists>s. stmt = StmtSet s) \<or>
       (\<exists>s. stmt = StmtCreateIndex s) \<longrightarrow> conv' = conv)) \<and>
   (\<forall>c c' b. processStatement E c stmt = Inr (c', b) \<longrightarrow> b = (\<exists>s. stmt = StmtInsert s))"
  by (cases stmt) (auto simp: processStatement_def record_call_def split: sum.splits if_splits)

theorem processStatement_data_mode_frame_witness:
  "\<not> SchemaMode (ex_conv_t\<lparr>Conv_mode := dataOnly\<rparr>) \<and>
   SrcSchema (ex_conv_t\<lparr>Conv_mode := dataOnly\<rparr>) \<noteq> [] \<and>
   processStatement ex_Ext (ex_conv_t\<lparr>Conv_mode := dataOnly\<rparr>) (StmtCreateTable ex_create_t_two_pk)
     = Inr (ex_conv_t\<lparr>Conv_mode := dataOnly\<rparr>, False) \<and>
   (\<exists>conv'. processStatement ex_Ext (ex_conv_t\<lparr>Conv_mode := dataOnly\<rparr>) (StmtOther ''*ast.DropTableStmt'')
              = Inr (conv', False) \<and>
            SrcSchema conv' = SrcSchema (ex_conv_t\<lparr>Conv_mode := dataOnly\<rparr>))"
proof -
  have m: "\<not> SchemaMode (ex_conv_t\<lparr>Conv_mode := dataOnly\<rparr>)"
    by (simp add: SchemaMode_def)
  have ne: "SrcSchema (ex_conv_t\<lparr>Conv_mode := dataOnly\<rparr>) \<noteq> []"
    by code_simp
  show ?thesis
    using processStatement_data_mode_frame[OF m, of ex_Ext "StmtCreateTable ex_create_t_two_pk"]
          processStatement_data_mode_frame[OF m, of ex_Ext "StmtOther ''*ast.DropTableStmt''"]
          m ne
    by auto
qed

section \<open>Primary keys declared twice\<close>

lemma toSchemaKeys_names:
  "map IPS_Column keys = map Some names \<Longrightarrow>
   toSchemaKeys keys m =
     Inr (map (\<lambda>colId. \<lparr>Key_ColId = colId, Key_Desc = False, Key_Order = 0\<rparr>) (List.map_filter (map_of m) names))"
proof (induction keys arbitrary: names)
  case Nil
  then show ?case by (simp add: List.map_filter_simps)
next
  case (Cons k keys)
  then obtain n ns where names: "names = n # ns" "IPS_Column k = Some n" "map IPS_Column keys = map Some ns"
    by (cases names) auto
  with Cons.IH[of ns] show ?case
    by (simp add: List.map_filter_simps split: option.splits)
qed

lemma updateCols_names:
  "map IPS_Column keys = map Some names \<Longrightarrow>
   \<exists>colDefs. updateCols ct keys (Some colDef) m = Inr (Some colDefs)"
proof (induction keys arbitrary: names colDef)
  case Nil
  then show ?case by simp
next
  case (Cons k keys)
  then obtain n ns where names: "names = n # ns" "IPS_Column k = Some n" "map IPS_Column keys = map Some ns"
    by (cases names) auto
  with Cons.IH[of ns] show ?case
    by (simp add: Let_def)
qed

lemma lookup_Table_set_SrcTable:
  "lookup_Table (SrcSchema (set_SrcTable conv tableId st)) tableId = st"
  by (simp add: lookup_Table_def set_SrcTable_def update_conv')

text \<open>
  C5. When processConstraint handles a table-level PRIMARY KEY constraint (whose key
  parts name columns) for a table whose primary key is not empty, it returns without a
  fault; the table's primary key is then the constraint's: the ids of its columns that
  the name-to-id map knows, in the order of the constraint. The only call it records is
  one \<open>conv.Unexpected\<close> with the warning that the statement is overwriting the primary
  key; no \<open>ErrorInStatement\<close> is recorded.
\<close>

theorem processConstraint_primary_key_last_wins:
  assumes "Constraint_Tp constraint = ConstraintPrimaryKey"
    and "Table_PrimaryKeys (lookup_Table (SrcSchema conv) tableId) \<noteq> []"
    and "map IPS_Column (Constraint_Keys constraint) = map Some names"
  shows "\<exists>conv'. processConstraint conv tableId constraint stmtType colNameToIdMap = Inr conv' \<and>
           Table_PrimaryKeys (lookup_Table (SrcSchema conv') tableId) =
             map (\<lambda>colId. \<lparr>Key_ColId = colId, Key_Desc = False, Key_Order = 0\<rparr>)
               (List.map_filter (map_of colNameToIdMap) names) \<and>
           Conv_calls conv' = Conv_calls conv @
             [Unexpected (''Multiple primary keys found. `'' @ stmtType @
                          ''` statement is overwriting primary key'')]"
proof -
  obtain st where st: "map_of (SrcSchema conv) tableId = Some st"
    using assms(2) by (cases "map_of (SrcSchema conv) tableId") (simp_all add: lookup_Table_def zero_Table_def)
  then have cd: "SrcTable_ColDefs conv tableId = Some (Table_ColDefs st)"
    by (simp add: SrcTable_ColDefs_def)
  obtain colDefs where u: "updateCols ConstraintPrimaryKey (Constraint_Keys constraint)
      (SrcTable_ColDefs conv tableId) colNameToIdMap = Inr (Some colDefs)"
    unfolding cd using updateCols_names[OF assms(3)] by blast
  show ?thesis
    using assms(1,2) toSchemaKeys_names[OF assms(3), of colNameToIdMap] u
    by (simp add: processConstraint_def Let_def checkEmpty_def lookup_Table_set_SrcTable set_ColDefs_def)
       (simp add: set_SrcTable_def record_call_def)
qed

theorem processConstraint_primary_key_last_wins_witness:
  "Table_PrimaryKeys (lookup_Table (SrcSchema ex_conv_t_pk) ''t1'') = [\<lparr>Key_ColId = ''c2'', Key_Desc = False, Key_Order = 0\<rparr>] \<and>
   (\<exists>conv'. processConstraint ex_conv_t_pk ''t1'' ex_pk_name ''CREATE TABLE'' [(''id'', ''c2''), (''name'', ''c3'')]
              = Inr conv' \<and>
       Table_PrimaryKeys (lookup_Table (SrcSchema conv') ''t1'') = [\<lparr>Key_ColId = ''c3'', Key_Desc = False, Key_Order = 0\<rparr>] \<and>
       Conv_calls conv' = Conv_calls ex_conv_t_pk @
         [Unexpected ''Multiple primary keys found. `CREATE TABLE` statement is overwriting primary key'']) \<and>
   (case processCreateTable (conv_init schemaOnly) ex_create_t_two_pk of
      Inr conv' \<Rightarrow> Table_PrimaryKeys (lookup_Table (SrcSchema conv') ''t1'')
    | Inl e \<Rightarrow> []) = [\<lparr>Key_ColId = ''c3'', Key_Desc = False, Key_Order = 0\<rparr>]"
proof -
  have pk: "Table_PrimaryKeys (lookup_Table (SrcSchema ex_conv_t_pk) ''t1'') = [\<lparr>Key_ColId = ''c2'', Key_Desc = False, Key_Order = 0\<rparr>]"
    by code_simp
  have tp: "Constraint_Tp ex_pk_name = ConstraintPrimaryKey"
    by (simp add: ex_pk_name_def)
  have ks: "map IPS_Column (Constraint_Keys ex_pk_name) = map Some [''name'']"
    by (simp add: ex_pk_name_def)
  have ne: "Table_PrimaryKeys (lookup_Table (SrcSchema ex_conv_t_pk) ''t1'') \<noteq> []"
    using pk by simp
  have whole: "(case processCreateTable (conv_init schemaOnly) ex_create_t_two_pk of
      Inr conv' \<Rightarrow> Table_PrimaryKeys (lookup_Table (SrcSchema conv') ''t1'')
    | Inl e \<Rightarrow> []) = [\<lparr>Key_ColId = ''c3'', Key_Desc = False, Key_Order = 0\<rparr>]"
    by code_simp
  show ?thesis
    using processConstraint_primary_key_last_wins[OF tp ne ks, of "''CREATE TABLE''" "[(''id'', ''c2''), (''name'', ''c3'')]"]
          pk whole
    by (simp add: List.map_filter_simps)
qed

section \<open>Foreign key actions\<close>





section \<open>Index keys\<close>

lemma toSchemaKeys_ascending:
  "toSchemaKeys columns m = Inr keys \<Longrightarrow> list_all (\<lambda>k. \<not> Key_Desc k) keys"
  by (induction columns arbitrary: keys) (auto split: option.splits sum.splits)

text \<open>
  C6. For \<open>CREATE INDEX idx ON t (name DESC, id)\<close> on the table \<open>t (id, name)\<close>,
  toSchemaKeys and processCreateIndex give the index the keys \<open>name\<close>, \<open>id\<close> in the
  order of the statement, both with \<open>Desc = False\<close>: the direction \<open>DESC\<close> of \<open>name\<close>
  is not kept.
\<close>

theorem processCreateIndex_drops_direction:
  "toSchemaKeys (CI_IndexPartSpecifications ex_create_index) [(''id'', ''c2''), (''name'', ''c3'')]
     = Inr [\<lparr>Key_ColId = ''c3'', Key_Desc = False, Key_Order = 0\<rparr>, \<lparr>Key_ColId = ''c2'', Key_Desc = False, Key_Order = 0\<rparr>] \<and>
   (case processCreateIndex ex_conv_t ex_create_index of
      Inr conv' \<Rightarrow> map Index_Keys (Table_Indexes (lookup_Table (SrcSchema conv') ''t1''))
    | Inl e \<Rightarrow> [])
     = [[\<lparr>Key_ColId = ''c3'', Key_Desc = False, Key_Order = 0\<rparr>, \<lparr>Key_ColId = ''c2'', Key_Desc = False, Key_Order = 0\<rparr>]]"
  by code_simp

section \<open>Rows of an INSERT in data mode\<close>

lemma processInsertStmt_rows_calls:
  "Conv_mode conv = dataOnly \<Longrightarrow>
   processInsertStmt_rows E conv tableId colNameIdMap commonColIds srcCols srcSchema rows =
     conv\<lparr>Conv_calls := Conv_calls conv @
       concat (map (\<lambda>row.
         case Ext_PrepareValues E tableId colNameIdMap commonColIds srcCols
                (case getVals row of Inl err \<Rightarrow> [] | Inr vs \<Rightarrow> vs) of
           Inr newValues \<Rightarrow> [ProcessDataRow tableId commonColIds newValues]
         | Inl err2 \<Rightarrow>
             [Unexpected (''Error while converting data: '' @
                          (case getVals row of Inl err \<Rightarrow> err | Inr vs \<Rightarrow> ''%!s(<nil>)'') @ [CHR 0x0A]),
              StatsAddBadRow (Table_Name srcSchema) True,
              CollectBadRow (Table_Name srcSchema) srcCols
                (case getVals row of Inl err \<Rightarrow> [] | Inr vs \<Rightarrow> vs)]) rows)\<rparr>"
proof (induction rows arbitrary: conv)
  case Nil
  then show ?case by simp
next
  case (Cons row rows)
  show ?case
  proof (cases "Ext_PrepareValues E tableId colNameIdMap commonColIds srcCols
                (case getVals row of Inl err \<Rightarrow> [] | Inr vs \<Rightarrow> vs)")
    case (Inl err2)
    then show ?thesis
      using Cons.prems
      by (simp add: Let_def Cons.IH record_call_def DataMode_def)
  next
    case (Inr newValues)
    then show ?thesis
      using Cons.prems
      by (simp add: Let_def Cons.IH record_call_def)
  qed
qed

text \<open>
  C7. In data mode, for an INSERT statement into a table of the source schema (with a
  list of rows, and either a list of columns or a table that declares columns),
  processInsertStmt takes the statement's column names, resolved to ids by
  \<open>GetColIdFromSrcName\<close>, or without a column list the table's declared column ids in
  their order; \<open>commonColIds\<close> are those of these ids that are column ids of the target
  table, so a column dropped from the target is left out. For every row, in order, the
  values are prepared for \<open>commonColIds\<close> and the row is written with
  \<open>ProcessDataRow(tableId, commonColIds, newValues)\<close>, or, when the preparation fails,
  recorded as a bad row. Nothing else of the context changes.
\<close>

theorem processInsertStmt_data_mode_columns:
  assumes "Conv_mode conv = dataOnly"
    and "Ins_Table stmt = Some tbl"
    and "getTableNameInsert tbl = Inr srcTable"
    and "map_of (SrcSchema conv) (GetTableIdFromSrcName (SrcSchema conv) srcTable) = Some srcSchema"
    and "Ins_Lists stmt = Some rows"
    and "Ins_Columns stmt = None \<longrightarrow> Table_ColIds srcSchema \<noteq> []"
  shows
    "let tableId = GetTableIdFromSrcName (SrcSchema conv) srcTable;
         srcCols = (case Ins_Columns stmt of
                      Some columns \<Rightarrow> columns
                    | None \<Rightarrow> map (\<lambda>colId. Column_Name (lookup_Column (Table_ColDefs srcSchema) colId))
                               (Table_ColIds srcSchema));
         srcColIds = (case Ins_Columns stmt of
                        Some columns \<Rightarrow> map (GetColIdFromSrcName (Table_ColDefs srcSchema)) columns
                      | None \<Rightarrow> Table_ColIds srcSchema);
         spColIds = SpTable_ColIds (lookup_CreateTable (SpSchema conv) tableId);
         commonColIds = filter (\<lambda>colId. colId \<in> set spColIds) srcColIds
     in set commonColIds = set srcColIds \<inter> set spColIds \<and>
        processInsertStmt E conv stmt =
          conv\<lparr>Conv_calls := Conv_calls conv @
            concat (map (\<lambda>row.
              case Ext_PrepareValues E tableId (GetSrcColNameIdMap srcSchema) commonColIds srcCols
                     (case getVals row of Inl err \<Rightarrow> [] | Inr vs \<Rightarrow> vs) of
                Inr newValues \<Rightarrow> [ProcessDataRow tableId commonColIds newValues]
              | Inl err2 \<Rightarrow>
                  [Unexpected (''Error while converting data: '' @
                               (case getVals row of Inl err \<Rightarrow> err | Inr vs \<Rightarrow> ''%!s(<nil>)'') @ [CHR 0x0A]),
                   StatsAddBadRow (Table_Name srcSchema) True,
                   CollectBadRow (Table_Name srcSchema) srcCols
                     (case getVals row of Inl err \<Rightarrow> [] | Inr vs \<Rightarrow> vs)]) rows)\<rparr>"
proof -
  have lt: "lookup_Table (SrcSchema conv) (GetTableIdFromSrcName (SrcSchema conv) srcTable) = srcSchema"
    using assms(4) by (simp add: lookup_Table_def)
  have nm: "\<not> SchemaMode conv"
    using assms(1) by (simp add: SchemaMode_def)
  show ?thesis
  proof (cases "Ins_Columns stmt")
    case None
    with assms(6) have ne: "Table_ColIds srcSchema \<noteq> []" by simp
    show ?thesis
      using assms(1-5) None ne lt nm
      by (auto simp: processInsertStmt_def Let_def getCols_def IntersectionOfTwoStringSlices_def
                     processInsertStmt_rows_calls)
  next
    case (Some columns)
    show ?thesis
      using assms(1-5) Some lt nm
      by (auto simp: processInsertStmt_def Let_def getCols_def IntersectionOfTwoStringSlices_def
                     processInsertStmt_rows_calls)
  qed
qed


theorem processInsertStmt_data_mode_columns_witness:
  "processInsertStmt ex_Ext ex_conv_t_data (ex_insert None [ex_row_1a, ex_row_2b]) =
     ex_conv_t_data\<lparr>Conv_calls := [ProcessDataRow ''t1'' [''c2''] [''1''], ProcessDataRow ''t1'' [''c2''] [''2'']]\<rparr> \<and>
   processInsertStmt ex_Ext ex_conv_t_data (ex_insert (Some [''name'', ''id'']) [[ValueExpr (VOther ''a'' ''string''), ValueExpr (VInt64 1)]]) =
     ex_conv_t_data\<lparr>Conv_calls := [ProcessDataRow ''t1'' [''c2''] [''1'']]\<rparr>"
proof -
  have a1: "Conv_mode ex_conv_t_data = dataOnly"
    by (simp add: ex_conv_t_data_def)
  have a2: "Ins_Table (ex_insert columns rows) = Some ex_table_refs" for columns rows
    by (simp add: ex_insert_def)
  have a3: "getTableNameInsert ex_table_refs = Inr ''t''"
    by code_simp
  have f1: "GetTableIdFromSrcName (SrcSchema ex_conv_t_data) ''t'' = ''t1''"
    by code_simp
  have a4: "map_of (SrcSchema ex_conv_t_data) (GetTableIdFromSrcName (SrcSchema ex_conv_t_data) ''t'') = Some ex_table_t"
    unfolding f1 by (simp add: ex_conv_t_data_def)
  have a5: "Ins_Lists (ex_insert columns rows) = Some rows" for columns rows
    by (simp add: ex_insert_def)
  have a6: "Ins_Columns (ex_insert columns rows) = None \<longrightarrow> Table_ColIds ex_table_t \<noteq> []" for columns rows
    by (simp add: ex_table_t_def)
  have f2: "SpTable_ColIds (lookup_CreateTable (SpSchema ex_conv_t_data) ''t1'') = [''c2'', ''c4'']"
    by code_simp
  have f3: "Table_ColIds ex_table_t = [''c2'', ''c3'']" "Table_Name ex_table_t = ''t''"
    by (simp_all add: ex_table_t_def)
  have f5: "Column_Name (lookup_Column (Table_ColDefs ex_table_t) ''c2'') = ''id''"
    "Column_Name (lookup_Column (Table_ColDefs ex_table_t) ''c3'') = ''name''"
    by code_simp+
  have f6: "GetSrcColNameIdMap ex_table_t = [(''id'', ''c2''), (''name'', ''c3'')]"
    by code_simp
  have f7: "getVals ex_row_1a = Inr [''1'', ''a'']" "getVals ex_row_2b = Inr [''2'', ''b'']"
    "getVals [ValueExpr (VOther ''a'' ''string''), ValueExpr (VInt64 1)] = Inr [''a'', ''1'']"
    by code_simp+
  have f8: "Ext_PrepareValues ex_Ext ''t1'' [(''id'', ''c2''), (''name'', ''c3'')] [''c2''] [''id'', ''name''] [''1'', ''a''] = Inr [''1'']"
    "Ext_PrepareValues ex_Ext ''t1'' [(''id'', ''c2''), (''name'', ''c3'')] [''c2''] [''id'', ''name''] [''2'', ''b''] = Inr [''2'']"
    "Ext_PrepareValues ex_Ext ''t1'' [(''id'', ''c2''), (''name'', ''c3'')] [''c2''] [''name'', ''id''] [''a'', ''1''] = Inr [''1'']"
    by code_simp+
  have f9: "Conv_calls ex_conv_t_data = []"
    by (simp add: ex_conv_t_data_def)
  have f10: "GetColIdFromSrcName (Table_ColDefs ex_table_t) ''name'' = ''c3''"
    "GetColIdFromSrcName (Table_ColDefs ex_table_t) ''id'' = ''c2''"
    by code_simp+
  have i1: "Ins_Columns (ex_insert columns rows) = columns" for columns rows
    by (simp add: ex_insert_def)
  show ?thesis
    using processInsertStmt_data_mode_columns[OF a1 a2 a3 a4 a5 a6, of None "[ex_row_1a, ex_row_2b]" ex_Ext]
          processInsertStmt_data_mode_columns[OF a1 a2 a3 a4 a5 a6, of "Some [''name'', ''id'']" "[[ValueExpr (VOther ''a'' ''string''), ValueExpr (VInt64 1)]]" ex_Ext]
    by (simp add: Let_def f1 f2 f3 f5 f6 f7 f8 f9 f10 i1)
qed

section \<open>Tuples of an INSERT the parser rejects\<close>








section \<open>Chunks that cannot be parsed\<close>

lemma handleInsertStatement_values_fault:
  "handleInsertStatement_values E conv p vs stmts = Inl f \<Longrightarrow> \<exists>m. f = Panic m"
proof (induction vs arbitrary: conv stmts)
  case Nil
  then show ?case by simp
next
  case (Cons v vs)
  show ?case
  proof (cases "Ext_Parse E (p @ v @ '';'')")
    case (Inl err)
    with Cons.prems show ?thesis
      by (auto simp: Let_def dest: Cons.IH)
  next
    case (Inr newTree)
    with Cons.prems show ?thesis
      by (cases newTree) (auto simp: Let_def dest: Cons.IH)
  qed
qed

lemma handleInsertStatement_fault:
  "handleInsertStatement E conv chunk p = Inl f \<Longrightarrow> \<exists>m. f = Panic m"
  by (auto simp: handleInsertStatement_def Let_def split: if_splits sum.splits
           dest: handleInsertStatement_values_fault)

lemma handleParseError_fault:
  assumes "handleParseError E conv chunk err l = Inl f"
  shows "\<exists>m. f = Panic m"
proof (cases "MatchString unsupportedRegexp (Ext_ToLower E err) \<or> Contains (Ext_ToLower E err) ''delimiter''")
  case True
  with assms show ?thesis
    by (simp add: handleParseError_def Let_def split: if_splits prod.splits)
next
  case False
  show ?thesis
  proof (cases "FindString insertRegexp chunk = []")
    case True
    with False assms show ?thesis
      by (simp add: handleParseError_def Let_def)
  next
    case nonempty: False
    show ?thesis
    proof (cases "rx_find insertRegexp chunk")
      case None
      with nonempty show ?thesis
        by (simp add: FindString_def del: rx_find.simps)
    next
      case (Some bma)
      obtain b0 m0 a0 where "bma = (b0, m0, a0)" by (cases bma)
      with Some False nonempty assms
      have "handleInsertStatement E conv a0 (FindString insertRegexp chunk) = Inl f"
        by (simp add: handleParseError_def Let_def RegexpSplit2_def del: rx_find.simps)
      then show ?thesis by (rule handleInsertStatement_fault)
    qed
  qed
qed

lemma read_bytes_eof:
  "read_bytes s = (b, rest, True) \<Longrightarrow> CHR 0x0A \<notin> set s"
  by (induction s arbitrary: b rest) (auto split: if_splits prod.splits)

lemma read_bytes_line:
  "read_bytes s = (b, rest, False) \<Longrightarrow> count_nl s = Suc (count_nl rest)"
  by (induction s arbitrary: b rest) (auto simp: count_nl_def split: if_splits prod.splits)

lemma ReadLine_eof_count:
  "ReadLine r = (b, r1) \<Longrightarrow> \<not> EOF r \<Longrightarrow> EOF r1 \<Longrightarrow> count_nl (Reader_input r) = 0"
  by (auto simp: ReadLine_def count_nl_def filter_empty_conv split: prod.splits dest: read_bytes_eof)

lemma ReadLine_line_count:
  "ReadLine r = (b, r1) \<Longrightarrow> \<not> EOF r1 \<Longrightarrow> count_nl (Reader_input r) = Suc (count_nl (Reader_input r1))"
  by (auto simp: ReadLine_def split: prod.splits dest: read_bytes_line)

lemma readAndParseChunk_step_Again_l:
  "readAndParseChunk_step E conv r l = Again conv1 r1 l1 \<Longrightarrow>
   \<not> EOF r1 \<and> length l1 = Suc (length l) \<and> (\<exists>b. ReadLine r = (b, r1))"
  by (auto simp: readAndParseChunk_step_def Let_def split: prod.splits if_splits sum.splits)

lemma readAndParseChunk_step_Done_Error:
  "readAndParseChunk_step E conv r l = Done (Inl (Error msg)) \<Longrightarrow>
   msg = ''Error parsing last '' @ show_nat (Suc (length l)) @ '' line(s) of input'' \<and>
   (\<exists>b r1. ReadLine r = (b, r1) \<and> EOF r1)"
  by (auto simp: readAndParseChunk_step_def Let_def split: prod.splits if_splits sum.splits
           dest: handleParseError_fault)

lemma readAndParseChunk_loop_error_count:
  "\<not> EOF r \<Longrightarrow> readAndParseChunk_loop E conv r l = Inl (Error msg) \<Longrightarrow>
   msg = ''Error parsing last '' @ show_nat (length l + Suc (count_nl (Reader_input r))) @ '' line(s) of input''"
proof (induction E conv r l rule: readAndParseChunk_loop.induct)
  case (1 E conv r l)
  show ?case
  proof (cases "readAndParseChunk_step E conv r l")
    case (Done res)
    with "1.prems"(2) have "readAndParseChunk_step E conv r l = Done (Inl (Error msg))"
      by (simp add: readAndParseChunk_loop.simps)
    from readAndParseChunk_step_Done_Error[OF this] "1.prems"(1) show ?thesis
      by (auto dest: ReadLine_eof_count)
  next
    case (Again conv1 r1 l1)
    from readAndParseChunk_step_Again_l[OF Again] obtain b where
      a: "\<not> EOF r1" "length l1 = Suc (length l)" "ReadLine r = (b, r1)"
      by blast
    from Again "1.prems"(2) have "readAndParseChunk_loop E conv1 r1 l1 = Inl (Error msg)"
      by (simp add: readAndParseChunk_loop.simps)
    from "1.IH"[OF Again a(1) this] a ReadLine_line_count[OF a(3) a(1)] show ?thesis
      by simp
  qed
qed


lemma read_bytes_append: "read_bytes s = (b, rest, eof) \<Longrightarrow> s = b @ rest"
  by (induction s arbitrary: b rest eof) (auto split: if_splits prod.splits)

lemma ReadLine_append: "ReadLine r = (b, r1) \<Longrightarrow> Reader_input r = b @ Reader_input r1"
  by (auto simp: ReadLine_def split: prod.splits dest: read_bytes_append)

lemma readAndParseChunk_step_Done_reader:
  "readAndParseChunk_step E conv r l = Done (Inr (conv1, r1, b, stmts)) \<Longrightarrow> \<exists>b0. ReadLine r = (b0, r1)"
  by (auto simp: readAndParseChunk_step_def Let_def split: prod.splits if_splits sum.splits)

lemma readAndParseChunk_loop_suffix:
  "readAndParseChunk_loop E conv r l = Inr (conv1, r1, b, stmts) \<Longrightarrow>
   \<exists>done. Reader_input r = done @ Reader_input r1"
proof (induction E conv r l rule: readAndParseChunk_loop.induct)
  case (1 E conv r l)
  show ?case
  proof (cases "readAndParseChunk_step E conv r l")
    case (Done res)
    with "1.prems" have "readAndParseChunk_step E conv r l = Done (Inr (conv1, r1, b, stmts))"
      by (simp add: readAndParseChunk_loop.simps)
    from readAndParseChunk_step_Done_reader[OF this] show ?thesis
      by (auto dest: ReadLine_append)
  next
    case (Again conv2 r2 l2)
    with "1.prems" have "readAndParseChunk_loop E conv2 r2 l2 = Inr (conv1, r1, b, stmts)"
      by (simp add: readAndParseChunk_loop.simps)
    from "1.IH"[OF Again this] obtain d where d: "Reader_input r2 = d @ Reader_input r1"
      by blast
    from readAndParseChunk_step_Again_l[OF Again] obtain b0 where "ReadLine r = (b0, r2)"
      by blast
    from ReadLine_append[OF this] d have "Reader_input r = (b0 @ d) @ Reader_input r1"
      by simp
    then show ?thesis by blast
  qed
qed

lemma chunks_done_loop:
  "chunks_done E conv r conv' r' \<Longrightarrow>
   processMySQLDump_loop E conv r = processMySQLDump_loop E conv' r'"
proof (induction rule: chunks_done.induct)
  case start
  show ?case by simp
next
  case (round conv1 r1 conv2 r2 b stmts conv3)
  have "processMySQLDump_loop E conv1 r1 = processMySQLDump_loop E conv3 r2"
    using round.hyps(2,3,4) by (subst processMySQLDump_loop.simps) simp
  with round.IH show ?case by simp
qed

lemma chunks_done_suffix:
  "chunks_done E conv r conv' r' \<Longrightarrow>
   (\<exists>done. Reader_input r = done @ Reader_input r') \<and> (\<not> EOF r \<longrightarrow> \<not> EOF r')"
proof (induction rule: chunks_done.induct)
  case start
  show ?case by simp
next
  case (round conv1 r1 conv2 r2 b stmts conv3)
  from round.IH obtain d1 where d1: "Reader_input r = d1 @ Reader_input r1" by blast
  from round.hyps(2) obtain d2 where d2: "Reader_input r1 = d2 @ Reader_input r2"
    unfolding readAndParseChunk_def by (blast dest: readAndParseChunk_loop_suffix)
  from d1 d2 have "Reader_input r = (d1 @ d2) @ Reader_input r2" by simp
  with round.hyps(4) show ?case by blast
qed

lemma count_lines_reads:
  "Suc (count_nl s) = count_lines s + (if s = [] \<or> last s = CHR 0x0A then 1 else 0)"
  by (simp add: count_lines_def)

text \<open>
  C4 (as amended). In a round of readAndParseChunk in which the chunk read so far is
  tried (the line holds a semicolon, or the stream has ended), is no administrative
  comment, is rejected by the parser and is not repaired by handleParseError: when the
  stream has not ended, the loop goes on with the next line added to the chunk (and
  \<open>Stats.Reparsed\<close> counted up); when it has ended, readAndParseChunk returns the error
  \<open>Error parsing last n line(s) of input\<close>, \<open>n\<close> the number of reads of the chunk.
  When processMySQLDump has come to any chunk of the dump (\<open>chunks_done\<close>) and
  readAndParseChunk returns this error for it, processMySQLDump returns the error as its
  own; the chunk is the rest of the dump, and \<open>n\<close> is one more than the number of its
  newlines: every line read, and the read that finds the end of the stream. So \<open>n\<close>
  is the number of lines of the unparsed rest when this does not end with a newline, and
  one more when it does (or is empty), the last read being empty then.
\<close>

theorem readAndParseChunk_retry_or_fatal:
  assumes "ReadLine r = (b, r1)"
    and "Contains b '';'' \<or> EOF r1"
    and "\<not> MatchAnchored regexExp (concat (l @ [b]))"
    and "Ext_Parse E (concat (l @ [b])) = Inl err"
    and "handleParseError E conv (concat (l @ [b])) err (l @ [b]) = Inr (conv1, newTree, False)"
  shows "(\<not> EOF r1 \<longrightarrow>
            readAndParseChunk_loop E conv r l =
            readAndParseChunk_loop E (conv1\<lparr>Stats_Reparsed := Stats_Reparsed conv1 + 1\<rparr>) r1 (l @ [b])) \<and>
         (EOF r1 \<longrightarrow>
            readAndParseChunk_loop E conv r l =
            Inl (Error (''Error parsing last '' @ show_nat (length l + 1) @ '' line(s) of input''))) \<and>
         (\<forall>c0 r0 c r' msg.
            \<not> EOF r0 \<and> chunks_done E c0 r0 c r' \<and> readAndParseChunk E c r' = Inl (Error msg) \<longrightarrow>
            processMySQLDump E c0 r0 = Inl (Error msg) \<and>
            (\<exists>done. Reader_input r0 = done @ Reader_input r') \<and>
            msg = ''Error parsing last '' @ show_nat (Suc (count_nl (Reader_input r'))) @ '' line(s) of input'' \<and>
            Suc (count_nl (Reader_input r')) =
              count_lines (Reader_input r') +
              (if Reader_input r' = [] \<or> last (Reader_input r') = CHR 0x0A then 1 else 0))"
proof (intro conjI impI allI)
  assume "\<not> EOF r1"
  then show "readAndParseChunk_loop E conv r l =
            readAndParseChunk_loop E (conv1\<lparr>Stats_Reparsed := Stats_Reparsed conv1 + 1\<rparr>) r1 (l @ [b])"
    using assms
    by (subst readAndParseChunk_loop.simps) (simp add: readAndParseChunk_step_def Let_def)
next
  assume "EOF r1"
  then show "readAndParseChunk_loop E conv r l =
            Inl (Error (''Error parsing last '' @ show_nat (length l + 1) @ '' line(s) of input''))"
    using assms
    by (subst readAndParseChunk_loop.simps) (simp add: readAndParseChunk_step_def Let_def)
next
  fix c0 r0 c r' msg
  assume a: "\<not> EOF r0 \<and> chunks_done E c0 r0 c r' \<and> readAndParseChunk E c r' = Inl (Error msg)"
  then have cd: "chunks_done E c0 r0 c r'" and rp: "readAndParseChunk E c r' = Inl (Error msg)"
    and ne: "\<not> EOF r0"
    by simp_all
  from chunks_done_suffix[OF cd] ne have suf: "\<exists>done. Reader_input r0 = done @ Reader_input r'"
    and ne': "\<not> EOF r'"
    by simp_all
  have "processMySQLDump_loop E c r' = Inl (Error msg)"
    using rp by (subst processMySQLDump_loop.simps) simp
  with chunks_done_loop[OF cd] show "processMySQLDump E c0 r0 = Inl (Error msg)"
    by (simp add: processMySQLDump_def)
  from suf show "\<exists>done. Reader_input r0 = done @ Reader_input r'" .
  from readAndParseChunk_loop_error_count[OF ne', of E c "[]" msg] rp
  show "msg = ''Error parsing last '' @ show_nat (Suc (count_nl (Reader_input r'))) @ '' line(s) of input''"
    by (simp add: readAndParseChunk_def)
  show "Suc (count_nl (Reader_input r')) =
              count_lines (Reader_input r') +
              (if Reader_input r' = [] \<or> last (Reader_input r') = CHR 0x0A then 1 else 0)"
    by (rule count_lines_reads)
qed

theorem readAndParseChunk_retry_or_fatal_witness:
  "readAndParseChunk_loop ex_Ext (conv_init schemaOnly) (reader_init (''SELECT ';'' @ [CHR 0x0A] @ ''x'' @ [CHR 0x0A])) []
     = readAndParseChunk_loop ex_Ext ((conv_init schemaOnly)\<lparr>Stats_Reparsed := 1\<rparr>)
         \<lparr>Reader_input = ''x'' @ [CHR 0x0A], LineNumber = 1, Offset = 10, EOF = False\<rparr>
         [''SELECT ';'' @ [CHR 0x0A]] \<and>
   readAndParseChunk_loop ex_Ext (conv_init schemaOnly)
       \<lparr>Reader_input = [], LineNumber = 2, Offset = 12, EOF = False\<rparr>
       [''SELECT ';'' @ [CHR 0x0A], ''x'' @ [CHR 0x0A]]
     = Inl (Error ''Error parsing last 3 line(s) of input'') \<and>
   chunks_done ex_Ext (conv_init schemaOnly) (reader_init ex_dump_trailing) ex_conv_t
     \<lparr>Reader_input = ''SELECT ';'' @ [CHR 0x0A] @ ''x'' @ [CHR 0x0A], LineNumber = 1, Offset = 43, EOF = False\<rparr> \<and>
   processMySQLDump ex_Ext (conv_init schemaOnly) (reader_init ex_dump_trailing)
     = Inl (Error ''Error parsing last 3 line(s) of input'') \<and>
   count_lines (''SELECT ';'' @ [CHR 0x0A] @ ''x'' @ [CHR 0x0A]) = 2"
proof -
  let ?c = "conv_init schemaOnly"
  let ?l1 = "''SELECT ';'' @ [CHR 0x0A]"
  let ?r = "reader_init (''SELECT ';'' @ [CHR 0x0A] @ ''x'' @ [CHR 0x0A])"
  let ?r1 = "\<lparr>Reader_input = ''x'' @ [CHR 0x0A], LineNumber = 1, Offset = 10, EOF = False\<rparr>"
  let ?r2 = "\<lparr>Reader_input = [], LineNumber = 2, Offset = 12, EOF = False\<rparr>"
  let ?r3 = "\<lparr>Reader_input = [], LineNumber = 3, Offset = 12, EOF = True\<rparr>"
  let ?rA = "\<lparr>Reader_input = ''SELECT ';'' @ [CHR 0x0A] @ ''x'' @ [CHR 0x0A], LineNumber = 1, Offset = 43, EOF = False\<rparr>"
  have a1: "ReadLine ?r = (?l1, ?r1)"
    by code_simp
  have a2: "Contains ?l1 '';'' \<or> EOF ?r1"
    by code_simp
  have a3: "\<not> MatchAnchored regexExp (concat ([] @ [?l1]))"
    by code_simp
  have a4: "Ext_Parse ex_Ext (concat ([] @ [?l1])) = Inl ''syntax error''"
    by code_simp
  have a5: "handleParseError ex_Ext ?c (concat ([] @ [?l1])) ''syntax error'' ([] @ [?l1]) = Inr (?c, [], False)"
    by code_simp
  have b1: "ReadLine ?r2 = ([], ?r3)"
    by code_simp
  have b2: "Contains [] '';'' \<or> EOF ?r3"
    by simp
  have b3: "\<not> MatchAnchored regexExp (concat ([?l1, ''x'' @ [CHR 0x0A]] @ [[]]))"
    by code_simp
  have b4: "Ext_Parse ex_Ext (concat ([?l1, ''x'' @ [CHR 0x0A]] @ [[]])) = Inl ''syntax error''"
    by code_simp
  have b5: "handleParseError ex_Ext ?c (concat ([?l1, ''x'' @ [CHR 0x0A]] @ [[]])) ''syntax error''
              ([?l1, ''x'' @ [CHR 0x0A]] @ [[]]) = Inr (?c, [], False)"
    by code_simp
  have n3: "show_nat (length [?l1, ''x'' @ [CHR 0x0A]] + 1) = ''3''"
    by code_simp
  have rp: "Stats_Reparsed ?c = 0"
    by (simp add: conv_init_def)
  have e0: "\<not> EOF (reader_init ex_dump_trailing)"
    by (simp add: reader_init_def)
  have e1: "\<not> EOF ?r1" and e3: "EOF ?r3" and eA: "\<not> EOF ?rA"
    by simp_all
  have c1: "readAndParseChunk ex_Ext ?c (reader_init ex_dump_trailing)
            = Inr (?c, ?rA, ''CREATE TABLE t (id INT, name VARCHAR(10));'' @ [CHR 0x0A], [StmtCreateTable ex_create_t])"
    by code_simp
  have c2: "processStatements ex_Ext ?c [StmtCreateTable ex_create_t] = Inr ex_conv_t"
    by code_simp
  have cd: "chunks_done ex_Ext ?c (reader_init ex_dump_trailing) ex_conv_t ?rA"
    by (rule chunks_done.round[OF chunks_done.start c1 c2 eA])
  have c3: "readAndParseChunk ex_Ext ex_conv_t ?rA = Inl (Error ''Error parsing last 3 line(s) of input'')"
    by code_simp
  have cl: "count_lines (''SELECT ';'' @ [CHR 0x0A] @ ''x'' @ [CHR 0x0A]) = 2"
    by code_simp
  from readAndParseChunk_retry_or_fatal[OF a1 a2 a3 a4 a5] e1
  have w1: "readAndParseChunk_loop ex_Ext ?c ?r [] =
            readAndParseChunk_loop ex_Ext (?c\<lparr>Stats_Reparsed := Stats_Reparsed ?c + 1\<rparr>) ?r1 ([] @ [?l1])"
    by blast
  from readAndParseChunk_retry_or_fatal[OF b1 b2 b3 b4 b5] e3
  have w2: "readAndParseChunk_loop ex_Ext ?c ?r2 [?l1, ''x'' @ [CHR 0x0A]] =
            Inl (Error (''Error parsing last '' @ show_nat (length [?l1, ''x'' @ [CHR 0x0A]] + 1) @ '' line(s) of input''))"
    by blast
  from readAndParseChunk_retry_or_fatal[OF b1 b2 b3 b4 b5] e0 cd c3
  have w3: "processMySQLDump ex_Ext ?c (reader_init ex_dump_trailing)
            = Inl (Error ''Error parsing last 3 line(s) of input'')"
    by blast
  show ?thesis
    using w1 w2 w3 cd cl unfolding n3 rp by simp
qed

text \<open>
  C4 as stated fails in the number reported: for the dump of the one line \<open>x\<close>, ended
  by a newline, the error reports 2 lines, and for the dump of the example, with two
  unparsed trailing lines, it reports 3. Without the last newline the dump \<open>x\<close> is
  reported as 1 line.
\<close>

theorem readAndParseChunk_trailing_lines_counterexample:
  "processMySQLDump ex_Ext (conv_init schemaOnly) (reader_init (''x'' @ [CHR 0x0A]))
     = Inl (Error ''Error parsing last 2 line(s) of input'') \<and>
   count_lines (''x'' @ [CHR 0x0A]) = 1 \<and>
   processMySQLDump ex_Ext (conv_init schemaOnly) (reader_init ''x'')
     = Inl (Error ''Error parsing last 1 line(s) of input'') \<and>
   count_lines ''x'' = 1 \<and>
   processMySQLDump ex_Ext (conv_init schemaOnly) (reader_init ex_dump_trailing)
     = Inl (Error ''Error parsing last 3 line(s) of input'') \<and>
   count_lines (''SELECT ';'' @ [CHR 0x0A] @ ''x'' @ [CHR 0x0A]) = 2"
  by code_simp

section \<open>The surrogate key\<close>

lemma SchemaToSpannerDDLHelper_other:
  "k \<noteq> Table_Id t \<Longrightarrow> map_of (SpSchema (SchemaToSpannerDDLHelper c t)) k = map_of (SpSchema c) k"
  by (simp add: SchemaToSpannerDDLHelper_def Let_def GenerateColumnId_def GenerateId_def update_conv')

lemma SchemaToSpannerDDLHelper_no_key:
  "Table_PrimaryKeys t = [] \<Longrightarrow>
   \<exists>synthId. map_of (SpSchema (SchemaToSpannerDDLHelper c t)) (Table_Id t) =
     Some \<lparr>SpTable_Name = Table_Name t, SpTable_ColIds = Table_ColIds t @ [synthId],
           SpTable_PrimaryKeys = [\<lparr>IK_ColId = synthId, IK_Desc = False, IK_Order = 1\<rparr>]\<rparr>"
  by (simp add: SchemaToSpannerDDLHelper_def Let_def GenerateColumnId_def GenerateId_def update_conv'
                cvtPrimaryKeys_def)

lemma SchemaToSpannerDDLHelper_key:
  "Table_PrimaryKeys t \<noteq> [] \<Longrightarrow>
   map_of (SpSchema (SchemaToSpannerDDLHelper c t)) (Table_Id t) =
     Some \<lparr>SpTable_Name = Table_Name t, SpTable_ColIds = Table_ColIds t,
           SpTable_PrimaryKeys = cvtPrimaryKeys (Table_PrimaryKeys t)\<rparr>"
  by (simp add: SchemaToSpannerDDLHelper_def Let_def update_conv' cvtPrimaryKeys_def)

lemma foldl_SchemaToSpannerDDLHelper_other:
  "k \<notin> Table_Id ` set ts \<Longrightarrow>
   map_of (SpSchema (foldl SchemaToSpannerDDLHelper c ts)) k = map_of (SpSchema c) k"
  by (induction ts arbitrary: c) (simp_all add: SchemaToSpannerDDLHelper_other)

lemma foldl_SchemaToSpannerDDLHelper_entry:
  "distinct (map Table_Id ts) \<Longrightarrow> t \<in> set ts \<Longrightarrow>
   \<exists>c'. map_of (SpSchema (foldl SchemaToSpannerDDLHelper c ts)) (Table_Id t) =
         map_of (SpSchema (SchemaToSpannerDDLHelper c' t)) (Table_Id t)"
proof (induction ts arbitrary: c)
  case Nil
  then show ?case by simp
next
  case (Cons x xs)
  show ?case
  proof (cases "t = x")
    case True
    with Cons.prems(1) have "Table_Id t \<notin> Table_Id ` set xs"
      by auto
    from foldl_SchemaToSpannerDDLHelper_other[OF this, of "SchemaToSpannerDDLHelper c x"] True
    show ?thesis
      by auto
  next
    case False
    with Cons.prems have "distinct (map Table_Id xs)" "t \<in> set xs"
      by auto
    from Cons.IH[OF this, of "SchemaToSpannerDDLHelper c x"] show ?thesis
      by simp
  qed
qed

text \<open>
  C1. In the model of the converter, for a source schema whose tables are stored under
  their own, distinct ids: a table without a primary key has, after the conversion, a
  target table whose primary key is exactly one column, the surrogate column, which is
  added as the last column of the table; so no such table is in the target schema without
  its surrogate key. A table with a primary key keeps its columns and its key.
\<close>

theorem SchemaToSpannerDDL_surrogate_key:
  assumes "distinct (map fst (SrcSchema conv))"
    and "list_all (\<lambda>(tid, t). Table_Id t = tid) (SrcSchema conv)"
    and "(tableId, srcTable) \<in> set (SrcSchema conv)"
  shows "(Table_PrimaryKeys srcTable = [] \<longrightarrow>
            (\<exists>synthId. map_of (SpSchema (SchemaToSpannerDDL conv)) tableId =
               Some \<lparr>SpTable_Name = Table_Name srcTable,
                     SpTable_ColIds = Table_ColIds srcTable @ [synthId],
                     SpTable_PrimaryKeys = [\<lparr>IK_ColId = synthId, IK_Desc = False, IK_Order = 1\<rparr>]\<rparr>)) \<and>
         (Table_PrimaryKeys srcTable \<noteq> [] \<longrightarrow>
            map_of (SpSchema (SchemaToSpannerDDL conv)) tableId =
               Some \<lparr>SpTable_Name = Table_Name srcTable, SpTable_ColIds = Table_ColIds srcTable,
                     SpTable_PrimaryKeys = cvtPrimaryKeys (Table_PrimaryKeys srcTable)\<rparr>)"
proof -
  have "map (\<lambda>x. Table_Id (snd x)) (SrcSchema conv) = map fst (SrcSchema conv)"
    using assms(2) by (simp add: map_eq_conv list_all_iff case_prod_beta)
  then have ids: "map Table_Id (map snd (SrcSchema conv)) = map fst (SrcSchema conv)"
    by (simp add: comp_def)
  have d: "distinct (map Table_Id (map snd (SrcSchema conv)))"
    unfolding ids by (rule assms(1))
  have m: "srcTable \<in> set (map snd (SrcSchema conv))"
    using assms(3) by force
  have i: "Table_Id srcTable = tableId"
    using assms(2,3) by (auto simp: list_all_iff)
  obtain c' where c': "map_of (SpSchema (SchemaToSpannerDDL conv)) tableId =
         map_of (SpSchema (SchemaToSpannerDDLHelper c' srcTable)) tableId"
    using foldl_SchemaToSpannerDDLHelper_entry[OF d m, of conv] i
    by (auto simp: SchemaToSpannerDDL_def)
  show ?thesis
    using c' i SchemaToSpannerDDLHelper_no_key[of srcTable c'] SchemaToSpannerDDLHelper_key[of srcTable c']
    by auto
qed

theorem SchemaToSpannerDDL_surrogate_key_witness:
  "Table_PrimaryKeys ex_table_t = [] \<and>
   SpSchema (SchemaToSpannerDDL ex_conv_t) =
     [(''t1'', \<lparr>SpTable_Name = ''t'', SpTable_ColIds = [''c2'', ''c3'', ''c4''],
               SpTable_PrimaryKeys = [\<lparr>IK_ColId = ''c4'', IK_Desc = False, IK_Order = 1\<rparr>]\<rparr>)] \<and>
   (\<exists>synthId. map_of (SpSchema (SchemaToSpannerDDL ex_conv_t)) ''t1'' =
       Some \<lparr>SpTable_Name = ''t'', SpTable_ColIds = [''c2'', ''c3''] @ [synthId],
             SpTable_PrimaryKeys = [\<lparr>IK_ColId = synthId, IK_Desc = False, IK_Order = 1\<rparr>]\<rparr>)"
proof -
  have s: "SrcSchema ex_conv_t = [(''t1'', ex_table_t)]"
    by code_simp
  have a1: "distinct (map fst (SrcSchema ex_conv_t))"
    unfolding s by simp
  have a2: "list_all (\<lambda>(tid, t). Table_Id t = tid) (SrcSchema ex_conv_t)"
    unfolding s by (simp add: ex_table_t_def)
  have a3: "(''t1'', ex_table_t) \<in> set (SrcSchema ex_conv_t)"
    unfolding s by simp
  have pk: "Table_PrimaryKeys ex_table_t = []"
    by (simp add: ex_table_t_def)
  have whole: "SpSchema (SchemaToSpannerDDL ex_conv_t) =
     [(''t1'', \<lparr>SpTable_Name = ''t'', SpTable_ColIds = [''c2'', ''c3'', ''c4''],
               SpTable_PrimaryKeys = [\<lparr>IK_ColId = ''c4'', IK_Desc = False, IK_Order = 1\<rparr>]\<rparr>)]"
    by code_simp
  show ?thesis
    using SchemaToSpannerDDL_surrogate_key[OF a1 a2 a3] pk whole
    by (simp add: ex_table_t_def)
qed

section \<open>The limits of a batch\<close>





end
